theory Spec2Isabelle
  imports Complex_Main
begin

section \<open>Content model (DEFAULT_CONFIG of src/App.js)\<close>

text \<open>
  JavaScript numbers are modelled as real numbers: the arithmetic of the layout and zoom
  code is read exactly, without rounding. Strings that the code tests for truthiness
  (\<open>node.children\<close>, \<open>node.color\<close>) are \<open>string option\<close>: \<open>None\<close> is
  \<open>null\<close>/\<open>undefined\<close>, and the empty string is falsy as well.
\<close>

record node =
  node_id :: string
  node_x :: real
  node_y :: real
  node_label :: string
  node_children :: "string option"
  node_color :: "string option"

record layer =
  layer_id :: string
  layer_name :: string
  layer_color :: string
  layer_nodes :: "node list"

record config =
  canvas_backgroundColor :: string
  layers :: "layer list"

record viewport =
  width :: real
  height :: real

definition truthy :: "string option \<Rightarrow> bool" where
  "truthy v = (case v of None \<Rightarrow> False | Some t \<Rightarrow> t \<noteq> [])"

definition mk_node :: "string \<Rightarrow> real \<Rightarrow> real \<Rightarrow> string \<Rightarrow> string option \<Rightarrow> node" where
  "mk_node i px py l c =
     \<lparr>node_id = i, node_x = px, node_y = py, node_label = l, node_children = c,
      node_color = None\<rparr>"

definition node_1 :: node where
  "node_1 = mk_node ''node-1'' 50 50 ''water cycle'' (Some ''layer-2'')"

definition node_2_1 :: node where
  "node_2_1 = mk_node ''node-2-1'' 43 50 ''what is it ?'' (Some ''layer-3'')"

definition node_2_2 :: node where
  "node_2_2 = mk_node ''node-2-2'' 57 50 ''4 layers'' (Some ''layer-3'')"

definition node_3_1 :: node where
  "node_3_1 = mk_node ''node-3-1'' 60 50 ''1. Evaporation'' None"

definition node_3_2 :: node where
  "node_3_2 = mk_node ''node-3-2'' 50 65 ''2. Condensation'' None"

definition node_3_3 :: node where
  "node_3_3 = mk_node ''node-3-3'' 40 50 ''3. Precipitation'' None"

definition node_3_4 :: node where
  "node_3_4 = mk_node ''node-3-4'' 50 35 ''4. Collection'' None"

definition layer_1 :: layer where
  "layer_1 = \<lparr>layer_id = ''layer-1'', layer_name = ''Root'', layer_color = ''#2563eb'',
              layer_nodes = [node_1]\<rparr>"

definition layer_2 :: layer where
  "layer_2 = \<lparr>layer_id = ''layer-2'', layer_name = ''Main Categories'',
              layer_color = ''#7c3aed'', layer_nodes = [node_2_1, node_2_2]\<rparr>"

definition layer_3 :: layer where
  "layer_3 = \<lparr>layer_id = ''layer-3'', layer_name = ''Details'', layer_color = ''#34d399'',
              layer_nodes = [node_3_1, node_3_2, node_3_3, node_3_4]\<rparr>"

definition DEFAULT_CONFIG :: config where
  "DEFAULT_CONFIG = \<lparr>canvas_backgroundColor = ''#0a0e27'',
                      layers = [layer_1, layer_2, layer_3]\<rparr>"

section \<open>Layout engine: calculateResponsiveScale\<close>

text \<open>
  The body of the inner loop of step 1: one pair of nodes, the running minimum
  \<open>minScale\<close> passed through.
\<close>

definition distance :: "real \<Rightarrow> real \<Rightarrow> node \<Rightarrow> node \<Rightarrow> real" where
  "distance w h node1 node2 =
     (let x1 = (node_x node1 / 100) * w;
          y1 = (node_y node1 / 100) * h;
          x2 = (node_x node2 / 100) * w;
          y2 = (node_y node2 / 100) * h;
          dx = x2 - x1;
          dy = y2 - y1
      in sqrt (dx * dx + dy * dy))"

definition pair_step :: "real \<Rightarrow> real \<Rightarrow> real \<Rightarrow> node \<Rightarrow> node \<Rightarrow> real \<Rightarrow> real" where
  "pair_step w h baseSize node1 node2 minScale =
     (let minDistance = baseSize * 1.2
      in if distance w h node1 node2 < minDistance \<and> distance w h node1 node2 > 0
         then min minScale (distance w h node1 node2 / minDistance)
         else minScale)"

text \<open>\<open>for (j = i + 1; j < allNodes.length; j++)\<close>: node \<open>i\<close> against the nodes after it.\<close>

fun inner_loop :: "real \<Rightarrow> real \<Rightarrow> real \<Rightarrow> node \<Rightarrow> node list \<Rightarrow> real \<Rightarrow> real" where
  "inner_loop w h baseSize node1 [] minScale = minScale"
| "inner_loop w h baseSize node1 (node2 # rest) minScale =
     inner_loop w h baseSize node1 rest (pair_step w h baseSize node1 node2 minScale)"

text \<open>\<open>for (i = 0; i < allNodes.length; i++)\<close>.\<close>

fun outer_loop :: "real \<Rightarrow> real \<Rightarrow> real \<Rightarrow> node list \<Rightarrow> real \<Rightarrow> real" where
  "outer_loop w h baseSize [] minScale = minScale"
| "outer_loop w h baseSize (node1 # rest) minScale =
     outer_loop w h baseSize rest (inner_loop w h baseSize node1 rest minScale)"

text \<open>
  Step 2, one node: the radius is computed once from the scale on entry, the four edge
  checks then run in order, each on the scale the previous one left.
  Division is by \<open>baseSize / 2\<close>, which is zero only for \<open>baseSize = 0\<close>; JavaScript
  yields an infinite quotient there and HOL yields 0, and both end in the lower clamp
  0.3 of step 3, so the returned scale is the same.
\<close>

definition boundary_step :: "real \<Rightarrow> real \<Rightarrow> real \<Rightarrow> node \<Rightarrow> real \<Rightarrow> real" where
  "boundary_step w h baseSize nd minScale =
     (let x = (node_x nd / 100) * w;
          y = (node_y nd / 100) * h;
          radius = (baseSize * minScale) / 2;
          leftBound = radius;
          rightBound = w - radius;
          topBound = radius;
          bottomBound = h - radius;
          m1 = (if x < leftBound
                then min minScale (((x / (baseSize / 2)) * minScale) * 0.95)
                else minScale);
          m2 = (if x > rightBound
                then min m1 ((((w - x) / (baseSize / 2)) * m1) * 0.95)
                else m1);
          m3 = (if y < topBound
                then min m2 (((y / (baseSize / 2)) * m2) * 0.95)
                else m2);
          m4 = (if y > bottomBound
                then min m3 ((((h - y) / (baseSize / 2)) * m3) * 0.95)
                else m3)
      in m4)"

fun boundary_loop :: "real \<Rightarrow> real \<Rightarrow> real \<Rightarrow> node list \<Rightarrow> real \<Rightarrow> real" where
  "boundary_loop w h baseSize [] minScale = minScale"
| "boundary_loop w h baseSize (nd # rest) minScale =
     boundary_loop w h baseSize rest (boundary_step w h baseSize nd minScale)"

text \<open>
  The arguments \<open>viewport\<close> and \<open>allNodes\<close> may be \<open>null\<close> (the early return tests
  them), hence the option types.
\<close>

definition calculateResponsiveScale ::
  "viewport option \<Rightarrow> node list option \<Rightarrow> real \<Rightarrow> real" where
  "calculateResponsiveScale vp allNodes baseSize =
     (case vp of
        None \<Rightarrow> 1
      | Some v \<Rightarrow>
          (case allNodes of
             None \<Rightarrow> 1
           | Some ns \<Rightarrow>
               if length ns \<le> 1 then 1
               else max 0.3 (min 1
                      (boundary_loop (width v) (height v) baseSize ns
                         (outer_loop (width v) (height v) baseSize ns 1)))))"

text \<open>
  The four edge tests of step 2 for one node at a given scale: true when some test of
  \<open>boundary_step\<close> fires.
\<close>

definition clipped :: "real \<Rightarrow> real \<Rightarrow> real \<Rightarrow> real \<Rightarrow> node \<Rightarrow> bool" where
  "clipped w h baseSize minScale nd =
     (let x = (node_x nd / 100) * w;
          y = (node_y nd / 100) * h;
          radius = (baseSize * minScale) / 2
      in x < radius \<or> x > w - radius \<or> y < radius \<or> y > h - radius)"

text \<open>Two nodes near the left edge, one above the other, used as an example layer.\<close>

definition edge_node_a :: node where
  "edge_node_a = mk_node ''a'' 10 40 ''a'' None"

definition edge_node_b :: node where
  "edge_node_b = mk_node ''b'' 10 60 ''b'' None"

section \<open>Navigation state (the \<open>useState\<close> cells of \<open>App\<close>)\<close>

text \<open>
  The cells \<open>isDragging\<close>, \<open>dragStart\<close>, \<open>nextLayerOpacity\<close>, \<open>textOpacity\<close> and
  \<open>clickedNodes\<close> are never written by a handler and are left out.
  \<open>clickZoomIntervalRef\<close> is the \<open>useRef\<close> holding the handle of the live interval.
\<close>

record history_entry =
  layerIndex :: nat
  entry_color :: string
  entry_name :: string
  nodeColor :: string
  clickedNode :: "node option"

record state =
  currentLayerIndex :: nat
  direction :: int
  backgroundColor :: string
  history :: "history_entry list"
  scale :: real
  panX :: real
  panY :: real
  isZooming :: bool
  zoomProgress :: real
  zoomingNode :: "node option"
  silentTransition :: bool
  viewport :: viewport
  clickZoomIntervalRef :: "nat option"

datatype error = TypeError

text \<open>
  Work a handler leaves for later: \<open>requestAnimationFrame\<close> callbacks and
  \<open>setTimeout\<close> callbacks, the latter with the values their closure captured.
\<close>

datatype frame_cb = SilentTransition node | ReverseTransition

datatype timeout_cb =
    ReverseSwap history_entry
  | ClickSwap nat string node
  | HomeSwap string
  | NavigateSwap nat history_entry
  | EndZooming
  | ClearSilent

type_synonym timeouts = "(nat \<times> timeout_cb) list"

text \<open>\<open>Array.prototype.findIndex\<close>; \<open>None\<close> is the result \<open>-1\<close>.\<close>

fun findIndex :: "('a \<Rightarrow> bool) \<Rightarrow> 'a list \<Rightarrow> nat option" where
  "findIndex P [] = None"
| "findIndex P (a # as) = (if P a then Some 0 else map_option Suc (findIndex P as))"

text \<open>\<open>config.layers[currentLayerIndex]\<close>, \<open>undefined\<close> out of range.\<close>

definition currentLayer :: "config \<Rightarrow> state \<Rightarrow> layer option" where
  "currentLayer cfg s =
     (if currentLayerIndex s < length (layers cfg)
      then Some (layers cfg ! currentLayerIndex s) else None)"

text \<open>\<open>node.color || currentLayer.color\<close>; reading \<open>.color\<close> of \<open>undefined\<close> throws.\<close>

definition inheritedColor :: "config \<Rightarrow> state \<Rightarrow> node \<Rightarrow> error + string" where
  "inheritedColor cfg s nd =
     (if truthy (node_color nd) then Inr (the (node_color nd))
      else (case currentLayer cfg s of
              None \<Rightarrow> Inl TypeError
            | Some cl \<Rightarrow> Inr (layer_color cl)))"

definition initialState :: "config \<Rightarrow> viewport \<Rightarrow> error + state" where
  "initialState cfg v =
     (case layers cfg of
        [] \<Rightarrow> Inl TypeError
      | l0 # _ \<Rightarrow>
          Inr \<lparr>currentLayerIndex = 0, direction = 0,
               backgroundColor = canvas_backgroundColor cfg,
               history = [\<lparr>layerIndex = 0, entry_color = canvas_backgroundColor cfg,
                           entry_name = layer_name l0,
                           nodeColor = canvas_backgroundColor cfg, clickedNode = None\<rparr>],
               scale = 1, panX = 0, panY = 0, isZooming = False, zoomProgress = 0,
               zoomingNode = None, silentTransition = False, viewport = v,
               clickZoomIntervalRef = None\<rparr>)"

section \<open>Transitions\<close>

definition handleReverseLayerTransition :: "state \<Rightarrow> state \<times> timeouts" where
  "handleReverseLayerTransition s =
     (if currentLayerIndex s = 0 \<or> length (history s) \<le> 1 then (s, [])
      else
        let prevHistory = history s ! (length (history s) - 2)
        in (s\<lparr>isZooming := True, direction := - 1,
               backgroundColor := entry_color prevHistory\<rparr>,
            [(50, ReverseSwap prevHistory), (750, EndZooming)]))"

text \<open>
  \<open>targetLayerIndex\<close> comes from \<open>findIndex\<close>, so \<open>config.layers[targetLayerIndex]\<close>
  is in range.
\<close>

definition handleSilentLayerTransition ::
  "config \<Rightarrow> state \<Rightarrow> node \<Rightarrow> error + state \<times> timeouts" where
  "handleSilentLayerTransition cfg s nd =
     (if \<not> truthy (node_children nd) then Inr (s, [])
      else
        (case findIndex (\<lambda>l. Some (layer_id l) = node_children nd) (layers cfg) of
           None \<Rightarrow> Inr (s, [])
         | Some targetLayerIndex \<Rightarrow>
             (case inheritedColor cfg s nd of
                Inl e \<Rightarrow> Inl e
              | Inr nodeColor' \<Rightarrow>
                  Inr (s\<lparr>clickZoomIntervalRef := None,
                         zoomProgress := 0,
                         zoomingNode := None,
                         silentTransition := True,
                         currentLayerIndex := targetLayerIndex,
                         backgroundColor := nodeColor',
                         scale := 1, panX := 0, panY := 0,
                         history :=
                           (if history s \<noteq> []
                               \<and> layerIndex (last (history s)) = targetLayerIndex
                            then history s
                            else history s @
                              [\<lparr>layerIndex = targetLayerIndex, entry_color = nodeColor',
                                entry_name = layer_name (layers cfg ! targetLayerIndex),
                                nodeColor = nodeColor', clickedNode = Some nd\<rparr>])\<rparr>,
                       [(50, ClearSilent)]))))"

definition handleNodeClick ::
  "config \<Rightarrow> state \<Rightarrow> node \<Rightarrow> error + state \<times> timeouts" where
  "handleNodeClick cfg s nd =
     (if \<not> truthy (node_children nd) \<or> isZooming s then Inr (s, [])
      else
        (case findIndex (\<lambda>l. Some (layer_id l) = node_children nd) (layers cfg) of
           None \<Rightarrow> Inr (s, [])
         | Some targetLayerIndex \<Rightarrow>
             (case inheritedColor cfg s nd of
                Inl e \<Rightarrow> Inl e
              | Inr nodeColor' \<Rightarrow>
                  Inr (s\<lparr>zoomProgress := 0, zoomingNode := None, isZooming := True,
                         direction := 1, backgroundColor := nodeColor'\<rparr>,
                       [(50, ClickSwap targetLayerIndex nodeColor' nd),
                        (750, EndZooming)]))))"

definition handleHome :: "config \<Rightarrow> state \<Rightarrow> state \<times> timeouts" where
  "handleHome cfg s =
     (if currentLayerIndex s = 0 \<or> isZooming s then (s, [])
      else
        let rootColor = canvas_backgroundColor cfg
        in (s\<lparr>isZooming := True, direction := - 1, backgroundColor := rootColor\<rparr>,
            [(50, HomeSwap rootColor), (750, EndZooming)]))"

text \<open>
  \<open>index === history.length - 1\<close> is written \<open>index + 1 = length\<close>, since the index is
  a natural number. \<open>history[index]\<close> out of range is \<open>undefined\<close> and reading its
  \<open>color\<close> throws; the breadcrumb buttons only pass indices of existing entries.
\<close>

definition handleNavigate :: "state \<Rightarrow> nat \<Rightarrow> error + state \<times> timeouts" where
  "handleNavigate s index =
     (if index + 1 = length (history s) \<or> isZooming s then Inr (s, [])
      else if length (history s) \<le> index then Inl TypeError
      else
        let target = history s ! index
        in Inr (s\<lparr>isZooming := True,
                   direction := (if index + 1 < length (history s) then - 1 else 1),
                   backgroundColor := entry_color target\<rparr>,
                [(50, NavigateSwap index target), (750, EndZooming)]))"

text \<open>The listener of the \<open>nodeGoBack\<close> event.\<close>

definition handleGoBack :: "state \<Rightarrow> state \<times> timeouts" where
  "handleGoBack s =
     (if length (history s) > 1 \<and> \<not> isZooming s \<and> currentLayerIndex s \<noteq> 0
      then
        let prevHistory = history s ! (length (history s) - 2)
        in (s\<lparr>isZooming := True, direction := - 1,
               backgroundColor := entry_color prevHistory\<rparr>,
            [(50, ReverseSwap prevHistory), (750, EndZooming)])
      else (s, []))"

text \<open>The listener of the \<open>triggerReverseTransition\<close> event.\<close>

definition handleReverseTransition :: "state \<Rightarrow> state \<times> timeouts" where
  "handleReverseTransition s =
     (if \<not> isZooming s \<and> currentLayerIndex s > 0
      then handleReverseLayerTransition s else (s, []))"

definition handleCanvasClick :: "state \<Rightarrow> state" where
  "handleCanvasClick s =
     (if zoomProgress s > 0 then s\<lparr>zoomProgress := 0, zoomingNode := None\<rparr> else s)"

section \<open>Progressive zoom: handleZoomProgress\<close>

text \<open>
  The upper bound of the progress on the deeper layers, as the updater computes it from
  the viewport and the nodes of the current layer.
\<close>

definition maxProgress :: "viewport \<Rightarrow> layer \<Rightarrow> real" where
  "maxProgress v cl =
     (let maxNodeSize = min (width v) (height v) * 0.95 * 1.75;
          baseNodeSize = 165;
          responsiveScale = calculateResponsiveScale (Some v) (Some (layer_nodes cl)) baseNodeSize;
          initialNodeSize = baseNodeSize * responsiveScale;
          maxScale = maxNodeSize / initialNodeSize
      in (maxScale - 1) / (8 / 100))"

definition transitionThreshold :: "state \<Rightarrow> real" where
  "transitionThreshold s = (if currentLayerIndex s = 0 then 84 else 90)"

text \<open>The value the updater \<open>prev => ...\<close> returns.\<close>

definition newProgress :: "state \<Rightarrow> layer \<Rightarrow> real \<Rightarrow> real" where
  "newProgress s cl deltaY =
     (let prev = zoomProgress s;
          zoomSensitivity = 0.15;
          increment = deltaY * zoomSensitivity;
          np = max 0 (prev + increment)
      in if currentLayerIndex s > 0 then min (maxProgress (viewport s) cl) np
         else min 200 np)"

text \<open>The bound the updater clamps to: 200 on the root layer, \<open>maxProgress\<close> below it.\<close>

definition progressBound :: "state \<Rightarrow> layer \<Rightarrow> real" where
  "progressBound s cl =
     (if currentLayerIndex s > 0 then maxProgress (viewport s) cl else 200)"

text \<open>
  The result is the state after the synchronous part, the callbacks handed to
  \<open>requestAnimationFrame\<close> and the timeouts set (by the reverse transition that a
  zoom-out at progress 0 starts at once). The handler and the callbacks it schedules
  read the values of the render they were created in; the fields they read
  (\<open>currentLayerIndex\<close>, \<open>history\<close>, \<open>viewport\<close>) are not written by the handler itself.
\<close>

definition handleZoomProgress ::
  "config \<Rightarrow> state \<Rightarrow> node \<Rightarrow> real \<Rightarrow> error + state \<times> frame_cb list \<times> timeouts" where
  "handleZoomProgress cfg s nd deltaY =
     (if isZooming s then Inr (s, [], [])
      else if deltaY > 0 \<and> \<not> truthy (node_children nd) then Inr (s, [], [])
      else if deltaY < 0 \<and> zoomProgress s = 0 \<and> currentLayerIndex s > 0
      then Inr (fst (handleReverseLayerTransition s), [],
                snd (handleReverseLayerTransition s))
      else
        (case currentLayer cfg s of
           None \<Rightarrow> Inl TypeError
         | Some cl \<Rightarrow>
             let s1 = (if deltaY > 0 \<and> zoomProgress s = 0
                       then s\<lparr>zoomingNode := Some nd\<rparr> else s);
                 prev = zoomProgress s;
                 np = newProgress s cl deltaY;
                 forward = (np \<ge> transitionThreshold s \<and> prev < transitionThreshold s
                            \<and> truthy (node_children nd));
                 backward = (np = 0 \<and> prev > 0 \<and> currentLayerIndex s > 0);
                 s2 = (if backward then s1\<lparr>zoomingNode := None\<rparr> else s1)
             in Inr (s2\<lparr>zoomProgress := np\<rparr>,
                     (if forward then [SilentTransition nd] else [])
                       @ (if backward then [ReverseTransition] else []),
                     [])))"

section \<open>Deferred callbacks and events\<close>

fun run_timeout :: "config \<Rightarrow> timeout_cb \<Rightarrow> state \<Rightarrow> error + state" where
  "run_timeout cfg (ReverseSwap prevHistory) s =
     Inr (s\<lparr>currentLayerIndex := layerIndex prevHistory,
            scale := 1, panX := 0, panY := 0,
            history := butlast (history s)\<rparr>)"
| "run_timeout cfg (ClickSwap targetLayerIndex nodeColor' nd) s =
     Inr (s\<lparr>currentLayerIndex := targetLayerIndex,
            scale := 1, panX := 0, panY := 0,
            history := history s @
              [\<lparr>layerIndex = targetLayerIndex, entry_color = nodeColor',
                entry_name = layer_name (layers cfg ! targetLayerIndex),
                nodeColor = nodeColor', clickedNode = Some nd\<rparr>]\<rparr>)"
| "run_timeout cfg (HomeSwap rootColor) s =
     (case layers cfg of
        [] \<Rightarrow> Inl TypeError
      | l0 # _ \<Rightarrow>
          Inr (s\<lparr>currentLayerIndex := 0,
                 scale := 1, panX := 0, panY := 0,
                 zoomProgress := 0, zoomingNode := None,
                 clickZoomIntervalRef := None,
                 history := [\<lparr>layerIndex = 0, entry_color = rootColor,
                              entry_name = layer_name l0, nodeColor = rootColor,
                              clickedNode = None\<rparr>]\<rparr>))"
| "run_timeout cfg (NavigateSwap index target) s =
     (let s1 = s\<lparr>currentLayerIndex := layerIndex target,
                 scale := 1, panX := 0, panY := 0\<rparr>;
          s2 = (if layerIndex target = 0
                then s1\<lparr>zoomProgress := 0, zoomingNode := None,
                        clickZoomIntervalRef := None\<rparr>
                else s1)
      in Inr (s2\<lparr>history := take (index + 1) (history s)\<rparr>))"
| "run_timeout cfg EndZooming s = Inr (s\<lparr>isZooming := False\<rparr>)"
| "run_timeout cfg ClearSilent s = Inr (s\<lparr>silentTransition := False\<rparr>)"

text \<open>
  The timeouts of one transition fire in the order of their delays, and no other event
  is taken in between: an event is one handler together with everything it scheduled.
\<close>

fun run_sorted :: "config \<Rightarrow> timeouts \<Rightarrow> state \<Rightarrow> error + state" where
  "run_sorted cfg [] s = Inr s"
| "run_sorted cfg ((d, cb) # rest) s =
     (case run_timeout cfg cb s of
        Inl e \<Rightarrow> Inl e
      | Inr s' \<Rightarrow> run_sorted cfg rest s')"

definition run_timeouts :: "config \<Rightarrow> timeouts \<Rightarrow> state \<Rightarrow> error + state" where
  "run_timeouts cfg ts s = run_sorted cfg (sort_key fst ts) s"

fun run_frame :: "config \<Rightarrow> frame_cb \<Rightarrow> state \<Rightarrow> error + state \<times> timeouts" where
  "run_frame cfg (SilentTransition nd) s = handleSilentLayerTransition cfg s nd"
| "run_frame cfg ReverseTransition s = Inr (handleReverseLayerTransition s)"

fun run_frames :: "config \<Rightarrow> frame_cb list \<Rightarrow> state \<Rightarrow> error + state \<times> timeouts" where
  "run_frames cfg [] s = Inr (s, [])"
| "run_frames cfg (f # fs) s =
     (case run_frame cfg f s of
        Inl e \<Rightarrow> Inl e
      | Inr (s', ts) \<Rightarrow>
          (case run_frames cfg fs s' of
             Inl e \<Rightarrow> Inl e
           | Inr (s'', ts') \<Rightarrow> Inr (s'', ts @ ts')))"

text \<open>A whole zoom step: the handler, then its animation-frame callbacks, then the timeouts.\<close>

definition zoom_event :: "config \<Rightarrow> state \<Rightarrow> node \<Rightarrow> real \<Rightarrow> error + state" where
  "zoom_event cfg s nd deltaY =
     (case handleZoomProgress cfg s nd deltaY of
        Inl e \<Rightarrow> Inl e
      | Inr (s1, frames, ts1) \<Rightarrow>
          (case run_frames cfg frames s1 of
             Inl e \<Rightarrow> Inl e
           | Inr (s2, ts2) \<Rightarrow> run_timeouts cfg (ts1 @ ts2) s2))"

datatype event =
    ZoomProgress node real
  | NodeClick node
  | TriggerReverseTransition
  | NodeGoBack
  | Home
  | Navigate nat
  | CanvasClick
  | Resize viewport

fun dispatch :: "config \<Rightarrow> state \<Rightarrow> event \<Rightarrow> error + state" where
  "dispatch cfg s (ZoomProgress nd deltaY) = zoom_event cfg s nd deltaY"
| "dispatch cfg s (NodeClick nd) =
     (case handleNodeClick cfg s nd of
        Inl e \<Rightarrow> Inl e
      | Inr (s1, ts) \<Rightarrow> run_timeouts cfg ts s1)"
| "dispatch cfg s TriggerReverseTransition =
     run_timeouts cfg (snd (handleReverseTransition s)) (fst (handleReverseTransition s))"
| "dispatch cfg s NodeGoBack =
     run_timeouts cfg (snd (handleGoBack s)) (fst (handleGoBack s))"
| "dispatch cfg s Home =
     run_timeouts cfg (snd (handleHome cfg s)) (fst (handleHome cfg s))"
| "dispatch cfg s (Navigate index) =
     (case handleNavigate s index of
        Inl e \<Rightarrow> Inl e
      | Inr (s1, ts) \<Rightarrow> run_timeouts cfg ts s1)"
| "dispatch cfg s CanvasClick = Inr (handleCanvasClick s)"
| "dispatch cfg s (Resize v) = Inr (s\<lparr>viewport := v\<rparr>)"

fun run :: "config \<Rightarrow> state \<Rightarrow> event list \<Rightarrow> error + state" where
  "run cfg s [] = Inr s"
| "run cfg s (e # es) =
     (case dispatch cfg s e of
        Inl err \<Rightarrow> Inl err
      | Inr s' \<Rightarrow> run cfg s' es)"

section \<open>Concrete states of the default configuration\<close>

text \<open>The history entry the application starts with.\<close>

definition root_entry :: history_entry where
  "root_entry = \<lparr>layerIndex = 0, entry_color = ''#0a0e27'', entry_name = ''Root'',
                  nodeColor = ''#0a0e27'', clickedNode = None\<rparr>"

text \<open>The state the application starts in, in a 1000 by 1000 viewport.\<close>

definition start_state :: state where
  "start_state =
     \<lparr>currentLayerIndex = 0, direction = 0, backgroundColor = ''#0a0e27'',
      history = [root_entry], scale = 1, panX = 0, panY = 0, isZooming = False,
      zoomProgress = 0, zoomingNode = None, silentTransition = False,
      viewport = \<lparr>width = 1000, height = 1000\<rparr>, clickZoomIntervalRef = None\<rparr>"

text \<open>
  The state on the root layer right after the updater of \<open>handleZoomProgress\<close> took the
  progress on ``water cycle'' from 0 to 90 in a 1000 by 1000 viewport, before the
  animation frame runs.
\<close>

definition crossing_state :: state where
  "crossing_state =
     \<lparr>currentLayerIndex = 0, direction = 0, backgroundColor = ''#0a0e27'',
      history = [root_entry], scale = 1, panX = 0, panY = 0, isZooming = False,
      zoomProgress = 90, zoomingNode = Some node_1, silentTransition = False,
      viewport = \<lparr>width = 1000, height = 1000\<rparr>, clickZoomIntervalRef = None\<rparr>"

text \<open>
  The state on layer 2 after zooming into ``water cycle'' and then scrolling 40 on
  ``what is it ?'' (progress 6), in a 1000 by 1000 viewport.
\<close>

definition deep_state :: state where
  "deep_state =
     \<lparr>currentLayerIndex = 1, direction = 0, backgroundColor = ''#2563eb'',
      history = [root_entry,
                 \<lparr>layerIndex = 1, entry_color = ''#2563eb'',
                  entry_name = ''Main Categories'', nodeColor = ''#2563eb'',
                  clickedNode = Some node_1\<rparr>],
      scale = 1, panX = 0, panY = 0, isZooming = False,
      zoomProgress = 6, zoomingNode = Some node_2_1, silentTransition = False,
      viewport = \<lparr>width = 1000, height = 1000\<rparr>, clickZoomIntervalRef = None\<rparr>"

text \<open>
  The state on layer 2 in a 200 by 200 viewport with the progress on ``what is it ?''
  at its upper bound there.
\<close>

definition capped_state :: state where
  "capped_state =
     deep_state\<lparr>viewport := \<lparr>width = 200, height = 200\<rparr>, zoomProgress := 7075 / 99\<rparr>"

text \<open>The root layer with a progress \<open>p\<close> pending on node \<open>z\<close>, in viewport \<open>v\<close>.\<close>

definition root_with :: "viewport \<Rightarrow> real \<Rightarrow> node option \<Rightarrow> state" where
  "root_with v p z = start_state\<lparr>viewport := v, zoomProgress := p, zoomingNode := z\<rparr>"

text \<open>Layer 2 as the silent transition from the root leaves it, in viewport \<open>v\<close>.\<close>

definition layer_2_fresh :: "viewport \<Rightarrow> state" where
  "layer_2_fresh v = deep_state\<lparr>viewport := v, zoomProgress := 0, zoomingNode := None\<rparr>"

text \<open>The history invariant: never empty, the first entry is the root layer.\<close>

definition history_ok :: "state \<Rightarrow> bool" where
  "history_ok s \<longleftrightarrow> history s \<noteq> [] \<and> layerIndex (hd (history s)) = 0"

text \<open>
  The model adds exactly; the program adds in IEEE doubles. Over the steps of a run whose
  progress stays below 200 the accumulated rounding error is below \<open>1 / 10 ^ 13\<close> per
  step. A hypothesis that compares an accumulated progress with a threshold keeps this
  distance from it, so that the conclusion does not depend on the rounding.
\<close>

definition rounding_slack :: "real list \<Rightarrow> real" where
  "rounding_slack ds = real (length ds) / 10 ^ 13"

text \<open>How many forward (silent) transitions a list of animation-frame callbacks holds.\<close>

fun forward_count :: "frame_cb list \<Rightarrow> nat" where
  "forward_count [] = 0"
| "forward_count (SilentTransition nd # fs) = Suc (forward_count fs)"
| "forward_count (ReverseTransition # fs) = forward_count fs"

section \<open>Properties of the layout engine\<close>

lemma pair_step_le: "pair_step w h b n1 n2 m \<le> m"
  by (simp add: pair_step_def Let_def)



lemma if_min_le: "(if c then min a b else a) \<le> (a::real)"
  by simp

lemma boundary_step_le: "boundary_step w h b nd m \<le> m"
  unfolding boundary_step_def Let_def
  by (rule order_trans[OF if_min_le], rule order_trans[OF if_min_le],
      rule order_trans[OF if_min_le], rule if_min_le)

lemma boundary_loop_le: "boundary_loop w h b ns m \<le> m"
proof (induction ns arbitrary: m)
  case Nil
  show ?case by simp
next
  case (Cons nd rest)
  have "boundary_loop w h b rest (boundary_step w h b nd m) \<le> boundary_step w h b nd m"
    by (rule Cons.IH)
  also have "\<dots> \<le> m" by (rule boundary_step_le)
  finally show ?case by simp
qed




lemma distance_nonneg: "0 \<le> distance w h n1 n2"
  by (simp add: distance_def Let_def)


lemma distance_same_y:
  "node_y n1 = node_y n2 \<Longrightarrow>
   distance w h n1 n2 = \<bar>(node_x n2 / 100) * w - (node_x n1 / 100) * w\<bar>"
  by (simp add: distance_def Let_def)

lemma distance_same_x:
  "node_x n1 = node_x n2 \<Longrightarrow>
   distance w h n1 n2 = \<bar>(node_y n2 / 100) * h - (node_y n1 / 100) * h\<bar>"
  by (simp add: distance_def Let_def)





lemma crs_layer_2_1000:
  "calculateResponsiveScale (Some \<lparr>width = 1000, height = 1000\<rparr>)
     (Some [node_2_1, node_2_2]) 165 = 70 / 99"
  by (simp add: calculateResponsiveScale_def pair_step_def boundary_step_def Let_def
      distance_same_y node_2_1_def node_2_2_def mk_node_def)

text \<open>
  C6. For every viewport, node list and base size the returned scale lies in the closed
  interval from 0.3 to 1, and it is exactly 1 when the viewport or the node list is
  missing or the list has at most one node.
\<close>

theorem calculateResponsiveScale_bounds:
  "0.3 \<le> calculateResponsiveScale vp allNodes baseSize
   \<and> calculateResponsiveScale vp allNodes baseSize \<le> 1
   \<and> ((vp = None \<or> allNodes = None \<or> (\<exists>ns. allNodes = Some ns \<and> length ns \<le> 1))
        \<longrightarrow> calculateResponsiveScale vp allNodes baseSize = 1)"
  by (auto simp: calculateResponsiveScale_def split: option.splits)

theorem calculateResponsiveScale_bounds_witness:
  "calculateResponsiveScale (Some \<lparr>width = 375, height = 667\<rparr>) (Some [node_1]) 165 = 1"
  using calculateResponsiveScale_bounds
          [of "Some \<lparr>width = 375, height = 667\<rparr>" "Some [node_1]" 165]
  by simp





lemma distance_mono:
  assumes "0 \<le> w1" "w1 \<le> w2" "0 \<le> h1" "h1 \<le> h2"
  shows "distance w1 h1 n1 n2 \<le> distance w2 h2 n1 n2"
proof -
  define p where "p = node_x n2 / 100 - node_x n1 / 100"
  define q where "q = node_y n2 / 100 - node_y n1 / 100"
  have d: "distance w h n1 n2 = sqrt ((p * w)\<^sup>2 + (q * h)\<^sup>2)" for w h
    by (simp add: distance_def Let_def p_def q_def power2_eq_square algebra_simps)
  have "w1\<^sup>2 \<le> w2\<^sup>2" using assms(1,2) by (simp add: power_mono)
  then have a: "(p * w1)\<^sup>2 \<le> (p * w2)\<^sup>2"
    by (simp add: power_mult_distrib mult_left_mono)
  have "h1\<^sup>2 \<le> h2\<^sup>2" using assms(3,4) by (simp add: power_mono)
  then have b: "(q * h1)\<^sup>2 \<le> (q * h2)\<^sup>2"
    by (simp add: power_mult_distrib mult_left_mono)
  show ?thesis unfolding d using a b by (simp add: add_mono)
qed

lemma distance_zero_iff:
  assumes "0 < w" "0 < h"
  shows "distance w h n1 n2 = 0 \<longleftrightarrow> node_x n1 = node_x n2 \<and> node_y n1 = node_y n2"
proof -
  define p where "p = node_x n2 / 100 - node_x n1 / 100"
  define q where "q = node_y n2 / 100 - node_y n1 / 100"
  have d: "distance w h n1 n2 = sqrt ((p * w)\<^sup>2 + (q * h)\<^sup>2)"
    by (simp add: distance_def Let_def p_def q_def power2_eq_square algebra_simps)
  have "distance w h n1 n2 = 0 \<longleftrightarrow> p * w = 0 \<and> q * h = 0"
    unfolding d by simp
  also have "\<dots> \<longleftrightarrow> p = 0 \<and> q = 0" using assms by simp
  also have "\<dots> \<longleftrightarrow> node_x n1 = node_x n2 \<and> node_y n1 = node_y n2"
    by (auto simp: p_def q_def)
  finally show ?thesis .
qed

lemma pair_step_mono:
  assumes "0 < w1" "w1 \<le> w2" "0 < h1" "h1 \<le> h2" "m1 \<le> m2"
  shows "pair_step w1 h1 b n1 n2 m1 \<le> pair_step w2 h2 b n1 n2 m2"
proof -
  let ?d1 = "distance w1 h1 n1 n2" and ?d2 = "distance w2 h2 n1 n2"
  have le: "?d1 \<le> ?d2" using assms by (intro distance_mono) simp_all
  have z: "?d1 = 0 \<longleftrightarrow> ?d2 = 0"
    using distance_zero_iff[of w1 h1 n1 n2] distance_zero_iff[of w2 h2 n1 n2] assms by simp
  have nn: "0 \<le> ?d1" by (rule distance_nonneg)
  show ?thesis
  proof (cases "?d2 < b * 1.2 \<and> ?d2 > 0")
    case True
    then have bpos: "0 < b * 1.2" by simp
    have t1: "?d1 < b * 1.2 \<and> ?d1 > 0" using True le z nn by auto
    have "?d1 / (b * 1.2) \<le> ?d2 / (b * 1.2)"
      using le bpos by (simp add: divide_right_mono)
    then have "min m1 (?d1 / (b * 1.2)) \<le> min m2 (?d2 / (b * 1.2))"
      using assms(5) by (simp add: min_def)
    then show ?thesis using True t1 by (simp add: pair_step_def Let_def)
  next
    case False
    then have "pair_step w2 h2 b n1 n2 m2 = m2" by (auto simp: pair_step_def Let_def)
    moreover have "pair_step w1 h1 b n1 n2 m1 \<le> m1" by (rule pair_step_le)
    ultimately show ?thesis using assms(5) by simp
  qed
qed

lemma inner_loop_mono:
  assumes "0 < w1" "w1 \<le> w2" "0 < h1" "h1 \<le> h2" "m1 \<le> m2"
  shows "inner_loop w1 h1 b n1 rest m1 \<le> inner_loop w2 h2 b n1 rest m2"
  using assms(5)
proof (induction rest arbitrary: m1 m2)
  case Nil
  then show ?case by simp
next
  case (Cons n2 rest)
  have "pair_step w1 h1 b n1 n2 m1 \<le> pair_step w2 h2 b n1 n2 m2"
    using assms(1-4) Cons.prems by (rule pair_step_mono)
  then show ?case using Cons.IH by simp
qed

lemma outer_loop_mono:
  assumes "0 < w1" "w1 \<le> w2" "0 < h1" "h1 \<le> h2" "m1 \<le> m2"
  shows "outer_loop w1 h1 b ns m1 \<le> outer_loop w2 h2 b ns m2"
  using assms(5)
proof (induction ns arbitrary: m1 m2)
  case Nil
  then show ?case by simp
next
  case (Cons n1 rest)
  have "inner_loop w1 h1 b n1 rest m1 \<le> inner_loop w2 h2 b n1 rest m2"
    using assms(1-4) Cons.prems by (rule inner_loop_mono)
  then show ?case using Cons.IH by simp
qed

lemma boundary_step_unclipped:
  "\<not> clipped w h b m nd \<Longrightarrow> boundary_step w h b nd m = m"
  by (simp add: clipped_def boundary_step_def Let_def)

lemma boundary_loop_unclipped:
  "\<forall>nd \<in> set ns. \<not> clipped w h b m nd \<Longrightarrow> boundary_loop w h b ns m = m"
  by (induction ns) (simp_all add: boundary_step_unclipped)

lemma crs_edge_495:
  "calculateResponsiveScale (Some \<lparr>width = 420, height = 495\<rparr>)
     (Some [edge_node_a, edge_node_b]) 165 = 1 / 2"
  by (simp add: calculateResponsiveScale_def pair_step_def boundary_step_def Let_def
      distance_same_x edge_node_a_def edge_node_b_def mk_node_def)

lemma crs_edge_990:
  "calculateResponsiveScale (Some \<lparr>width = 420, height = 990\<rparr>)
     (Some [edge_node_a, edge_node_b]) 165 = 133 / 275"
  by (simp add: calculateResponsiveScale_def pair_step_def boundary_step_def Let_def
      distance_same_x edge_node_a_def edge_node_b_def mk_node_def)

lemma outer_layer_2:
  "outer_loop 1000 1000 165 [node_2_1, node_2_2] 1 = 70 / 99"
  by (simp add: pair_step_def Let_def distance_same_y node_2_1_def node_2_2_def mk_node_def)

text \<open>
  C7 (amended). For viewports of positive size, enlarging the viewport (width and height
  both at least as large) does not decrease the scale, provided no node is clipped by an
  edge of the larger viewport at the scale the pairwise step gives there. The pairwise
  step alone is monotone; the edge step is not.
\<close>

theorem scale_monotone_unclipped:
  assumes "0 < width v1" "width v1 \<le> width v2" "0 < height v1" "height v1 \<le> height v2"
    and "\<forall>nd \<in> set ns. \<not> clipped (width v2) (height v2) baseSize
                              (outer_loop (width v2) (height v2) baseSize ns 1) nd"
  shows "calculateResponsiveScale (Some v1) (Some ns) baseSize
           \<le> calculateResponsiveScale (Some v2) (Some ns) baseSize"
proof (cases "length ns \<le> 1")
  case True
  then show ?thesis by (simp add: calculateResponsiveScale_def)
next
  case False
  let ?o1 = "outer_loop (width v1) (height v1) baseSize ns 1"
  let ?o2 = "outer_loop (width v2) (height v2) baseSize ns 1"
  have "boundary_loop (width v1) (height v1) baseSize ns ?o1 \<le> ?o1"
    by (rule boundary_loop_le)
  also have "?o1 \<le> ?o2" using assms(1-4) by (intro outer_loop_mono) simp_all
  also have "?o2 = boundary_loop (width v2) (height v2) baseSize ns ?o2"
    using boundary_loop_unclipped[OF assms(5)] by simp
  finally show ?thesis using False by (simp add: calculateResponsiveScale_def max_def min_def)
qed

theorem scale_monotone_unclipped_witness:
  "calculateResponsiveScale (Some \<lparr>width = 500, height = 500\<rparr>)
     (Some [node_2_1, node_2_2]) 165
   \<le> calculateResponsiveScale (Some \<lparr>width = 1000, height = 1000\<rparr>)
       (Some [node_2_1, node_2_2]) 165"
proof -
  let ?v1 = "\<lparr>width = 500, height = 500\<rparr>" and ?v2 = "\<lparr>width = 1000, height = 1000\<rparr>"
  have w: "0 < width ?v1" "width ?v1 \<le> width ?v2" by simp_all
  have h: "0 < height ?v1" "height ?v1 \<le> height ?v2" by simp_all
  have "\<forall>nd \<in> set [node_2_1, node_2_2]. \<not> clipped 1000 1000 165 (70 / 99) nd"
    by (simp add: clipped_def Let_def node_2_1_def node_2_2_def mk_node_def)
  then have unclipped: "\<forall>nd \<in> set [node_2_1, node_2_2].
     \<not> clipped (width ?v2) (height ?v2) 165
         (outer_loop (width ?v2) (height ?v2) 165 [node_2_1, node_2_2] 1) nd"
    by (simp only: viewport.select_convs outer_layer_2)
  show ?thesis
    by (rule scale_monotone_unclipped[OF w(1) w(2) h(1) h(2) unclipped])
qed

text \<open>
  C7 as stated fails: two nodes at 10 percent from the left edge, at 40 and 60 percent
  of the height. At 420 by 495 the scale is 1/2; at 420 by 990 the nodes are far enough
  apart for scale 1, the left edge then clips them and the result is 133/275.
\<close>

theorem scale_not_monotone_counterexample:
  "width \<lparr>width = 420, height = 495\<rparr> \<le> width \<lparr>width = 420, height = 990\<rparr>
   \<and> height \<lparr>width = 420, height = 495\<rparr> \<le> height \<lparr>width = 420, height = 990\<rparr>
   \<and> calculateResponsiveScale (Some \<lparr>width = 420, height = 990\<rparr>)
         (Some [edge_node_a, edge_node_b]) 165
       < calculateResponsiveScale (Some \<lparr>width = 420, height = 495\<rparr>)
           (Some [edge_node_a, edge_node_b]) 165"
  by (simp add: crs_edge_495 crs_edge_990)

section \<open>Properties of the navigation state machine\<close>

lemma findIndex_Some:
  "findIndex P xs = Some i \<Longrightarrow> i < length xs \<and> P (xs ! i)"
proof (induction xs arbitrary: i)
  case Nil
  then show ?case by simp
next
  case (Cons a xs)
  then show ?case by (cases i) (auto split: if_splits)
qed

lemma run_timeouts_two:
  "run_timeouts cfg [(50, a), (750, b)] s =
     (case run_timeout cfg a s of Inl e \<Rightarrow> Inl e
      | Inr s' \<Rightarrow> (case run_timeout cfg b s' of Inl e \<Rightarrow> Inl e | Inr s'' \<Rightarrow> Inr s''))"
  by (simp add: run_timeouts_def split: sum.splits)

lemma run_timeouts_one: "run_timeouts cfg [(d, a)] s = run_timeout cfg a s"
  by (simp add: run_timeouts_def split: sum.splits)

lemma run_timeouts_nil: "run_timeouts cfg [] s = Inr s"
  by (simp add: run_timeouts_def)

lemma findIndex_layer_2:
  "findIndex (\<lambda>l. Some (layer_id l) = node_children node_1) (layers DEFAULT_CONFIG) = Some 1"
  by (simp add: DEFAULT_CONFIG_def layer_1_def layer_2_def layer_3_def node_1_def mk_node_def)

lemma inheritedColor_crossing:
  "inheritedColor DEFAULT_CONFIG crossing_state node_1 = Inr ''#2563eb''"
  by (simp add: inheritedColor_def currentLayer_def crossing_state_def DEFAULT_CONFIG_def
      layer_1_def node_1_def mk_node_def truthy_def)

lemma truthy_node_1: "truthy (node_children node_1)"
  by (simp add: truthy_def node_1_def mk_node_def)

lemma silent_crossing:
  "handleSilentLayerTransition DEFAULT_CONFIG crossing_state node_1 =
     Inr (crossing_state\<lparr>clickZoomIntervalRef := None, zoomProgress := 0, zoomingNode := None,
            silentTransition := True, currentLayerIndex := 1, backgroundColor := ''#2563eb'',
            scale := 1, panX := 0, panY := 0,
            history := [root_entry, \<lparr>layerIndex = 1, entry_color = ''#2563eb'',
                  entry_name = ''Main Categories'', nodeColor = ''#2563eb'',
                  clickedNode = Some node_1\<rparr>]\<rparr>, [(50, ClearSilent)])"
  by (simp add: handleSilentLayerTransition_def truthy_node_1 findIndex_layer_2
        inheritedColor_crossing)
     (simp add: crossing_state_def root_entry_def DEFAULT_CONFIG_def layer_2_def)

lemma last_butlast_nth:
  assumes "1 < length xs"
  shows "last (butlast xs) = xs ! (length xs - 2)"
proof -
  have len: "length (butlast xs) = length xs - 1" by simp
  then have ne: "butlast xs \<noteq> []" using assms by (metis length_0_conv zero_less_diff less_numeral_extra(3))
  have "last (butlast xs) = butlast xs ! (length (butlast xs) - 1)"
    by (rule last_conv_nth[OF ne])
  also have "\<dots> = xs ! (length xs - 2)"
    using assms by (simp add: nth_butlast numeral_2_eq_2)
  finally show ?thesis .
qed

lemma newProgress_nonpos_delta:
  "deltaY \<le> 0 \<Longrightarrow> newProgress s cl deltaY \<le> max 0 (zoomProgress s)"
proof -
  assume d: "deltaY \<le> 0"
  then have "deltaY * 0.15 \<le> 0" by (simp add: mult_le_0_iff)
  then have "max 0 (zoomProgress s + deltaY * 0.15) \<le> max 0 (zoomProgress s)" by simp
  moreover have "newProgress s cl deltaY \<le> max 0 (zoomProgress s + deltaY * 0.15)"
    by (simp add: newProgress_def Let_def min_le_iff_disj)
  ultimately show ?thesis by linarith
qed

lemma transitionThreshold_pos: "0 < transitionThreshold s"
  by (simp add: transitionThreshold_def)

lemma crossing_needs_children:
  assumes "\<not> (deltaY > 0 \<and> \<not> truthy (node_children nd))"
    and "transitionThreshold s \<le> newProgress s cl deltaY"
    and "zoomProgress s < transitionThreshold s"
  shows "truthy (node_children nd)"
proof (rule ccontr)
  assume "\<not> truthy (node_children nd)"
  with assms(1) have "deltaY \<le> 0" by simp
  then have "newProgress s cl deltaY \<le> max 0 (zoomProgress s)"
    by (rule newProgress_nonpos_delta)
  also have "\<dots> < transitionThreshold s"
    using assms(3) transitionThreshold_pos[of s] by simp
  finally show False using assms(2) by simp
qed

lemma currentLayer_deep: "currentLayer DEFAULT_CONFIG deep_state = Some layer_2"
  by (simp add: currentLayer_def deep_state_def DEFAULT_CONFIG_def)

lemma maxProgress_deep:
  "maxProgress \<lparr>width = 1000, height = 1000\<rparr> layer_2 = 1325 / 8"
  by (simp add: maxProgress_def Let_def layer_2_def crs_layer_2_1000)

lemma initialState_default:
  "initialState DEFAULT_CONFIG \<lparr>width = 1000, height = 1000\<rparr> = Inr start_state"
  by (simp add: initialState_def DEFAULT_CONFIG_def layer_1_def start_state_def root_entry_def)

lemma zoom_start_600:
  "handleZoomProgress DEFAULT_CONFIG start_state node_1 600
     = Inr (crossing_state, [SilentTransition node_1], [])"
  by (simp add: handleZoomProgress_def currentLayer_def newProgress_def
        transitionThreshold_def Let_def truthy_node_1 start_state_def crossing_state_def
        DEFAULT_CONFIG_def)

text \<open>
  C1 (amended). The silent transition resets the zoom: for every state and every node
  whose \<open>children\<close> id resolves to a layer, after \<open>handleSilentLayerTransition\<close> the
  progress is 0, no node is being zoomed, and the current layer is the resolved one.
\<close>

theorem silent_transition_resets_zoom:
  assumes "truthy (node_children nd)"
    and "findIndex (\<lambda>l. Some (layer_id l) = node_children nd) (layers cfg) = Some t"
    and "inheritedColor cfg s nd = Inr c"
  shows "\<exists>s'. handleSilentLayerTransition cfg s nd = Inr (s', [(50, ClearSilent)])
           \<and> zoomProgress s' = 0 \<and> zoomingNode s' = None
           \<and> currentLayerIndex s' = t \<and> backgroundColor s' = c"
  using assms by (simp add: handleSilentLayerTransition_def)

theorem silent_transition_resets_zoom_witness:
  "\<exists>s'. handleSilentLayerTransition DEFAULT_CONFIG crossing_state node_1
            = Inr (s', [(50, ClearSilent)])
        \<and> zoomProgress s' = 0 \<and> zoomingNode s' = None
        \<and> currentLayerIndex s' = 1 \<and> backgroundColor s' = ''#2563eb''"
  by (rule silent_transition_resets_zoom
             [OF truthy_node_1 findIndex_layer_2 inheritedColor_crossing])

text \<open>
  C1 as stated fails: in the state where the progress on ``water cycle'' has just
  crossed the threshold (progress 90), the transition leaves progress 0 and no zooming
  node.
\<close>

theorem silent_transition_keeps_zoom_counterexample:
  "\<not> isl (handleSilentLayerTransition DEFAULT_CONFIG crossing_state node_1)
   \<and> zoomProgress (fst (projr (handleSilentLayerTransition DEFAULT_CONFIG crossing_state node_1)))
       \<noteq> zoomProgress crossing_state
   \<and> zoomingNode (fst (projr (handleSilentLayerTransition DEFAULT_CONFIG crossing_state node_1)))
       \<noteq> zoomingNode crossing_state"
  by (simp add: silent_crossing) (simp add: crossing_state_def)

text \<open>
  What the reverse transition writes, for every state below the root with more than one
  history entry: \<open>isZooming\<close> and the background colour of the previous history entry
  at once; the 50 ms timeout pops the last history entry, restores the layer index of
  the entry now on top and resets scale and pan; the 750 ms timeout clears
  \<open>isZooming\<close>. It writes neither \<open>zoomProgress\<close> nor \<open>zoomingNode\<close>.
\<close>

lemma reverse_transition_writes:
  assumes "0 < currentLayerIndex s" and "1 < length (history s)"
  shows "isZooming (fst (handleReverseLayerTransition s))
       \<and> backgroundColor (fst (handleReverseLayerTransition s))
           = entry_color (history s ! (length (history s) - 2))
       \<and> snd (handleReverseLayerTransition s)
           = [(50, ReverseSwap (history s ! (length (history s) - 2))), (750, EndZooming)]
       \<and> (\<exists>s'. run_timeouts cfg (snd (handleReverseLayerTransition s))
                   (fst (handleReverseLayerTransition s)) = Inr s'
            \<and> history s' = butlast (history s)
            \<and> currentLayerIndex s' = layerIndex (last (history s'))
            \<and> backgroundColor s' = entry_color (last (history s'))
            \<and> scale s' = 1 \<and> panX s' = 0 \<and> panY s' = 0
            \<and> \<not> isZooming s'
            \<and> zoomProgress s' = zoomProgress s
            \<and> zoomingNode s' = zoomingNode s)"
  using assms
  by (simp add: handleReverseLayerTransition_def Let_def run_timeouts_two last_butlast_nth)

text \<open>The handler only fails when the layer index is outside the configuration.\<close>

lemma handleZoomProgress_total:
  "currentLayerIndex s < length (layers cfg) \<Longrightarrow>
   \<exists>s' frames ts. handleZoomProgress cfg s nd deltaY = Inr (s', frames, ts)"
  by (simp add: handleZoomProgress_def currentLayer_def Let_def)

text \<open>
  C8. A call of \<open>handleZoomProgress\<close> schedules exactly one forward transition when the
  progress before the call is below the threshold of the layer and the progress after
  it is at or above the threshold, and none otherwise; in particular none while the
  progress already is at or above the threshold.
\<close>

theorem forward_fires_iff_crossing:
  assumes "handleZoomProgress cfg s nd deltaY = Inr (s', frames, ts)"
  shows "forward_count frames =
           (if zoomProgress s < transitionThreshold s \<and> transitionThreshold s \<le> zoomProgress s'
            then 1 else 0)
         \<and> (transitionThreshold s \<le> zoomProgress s \<longrightarrow> forward_count frames = 0)"
proof (cases "isZooming s \<or> (deltaY > 0 \<and> \<not> truthy (node_children nd))")
  case True
  then have "s' = s" "frames = []"
    using assms by (auto simp: handleZoomProgress_def split: if_splits)
  then show ?thesis by simp
next
  case guards: False
  show ?thesis
  proof (cases "deltaY < 0 \<and> zoomProgress s = 0 \<and> currentLayerIndex s > 0")
    case True
    then have "s' = fst (handleReverseLayerTransition s)" "frames = []"
      using assms guards by (auto simp: handleZoomProgress_def)
    moreover have "zoomProgress (fst (handleReverseLayerTransition s)) = zoomProgress s"
      by (simp add: handleReverseLayerTransition_def Let_def)
    ultimately show ?thesis by simp
  next
    case False
    with assms guards obtain cl where cl: "currentLayer cfg s = Some cl"
      by (auto simp: handleZoomProgress_def split: option.splits)
    let ?np = "newProgress s cl deltaY"
    have zp: "zoomProgress s' = ?np"
      using assms guards False cl by (auto simp: handleZoomProgress_def Let_def)
    have fr: "forward_count frames =
        (if ?np \<ge> transitionThreshold s \<and> zoomProgress s < transitionThreshold s
            \<and> truthy (node_children nd) then 1 else 0)"
      using assms guards False cl by (auto simp: handleZoomProgress_def Let_def)
    have "truthy (node_children nd)"
      if "transitionThreshold s \<le> ?np" "zoomProgress s < transitionThreshold s"
      using crossing_needs_children[of deltaY nd s cl] guards that by simp
    then show ?thesis using zp fr by auto
  qed
qed

theorem forward_fires_iff_crossing_witness:
  "handleZoomProgress DEFAULT_CONFIG start_state node_1 600
     = Inr (crossing_state, [SilentTransition node_1], [])
   \<and> forward_count [SilentTransition node_1] = 1
   \<and> zoomProgress start_state < transitionThreshold start_state
   \<and> transitionThreshold start_state \<le> zoomProgress crossing_state"
  using forward_fires_iff_crossing[OF zoom_start_600] zoom_start_600
  by (simp add: start_state_def crossing_state_def transitionThreshold_def)

lemma run_append:
  "run cfg s (xs @ ys) = (case run cfg s xs of Inl e \<Rightarrow> Inl e | Inr s' \<Rightarrow> run cfg s' ys)"
  by (induction xs arbitrary: s) (auto split: sum.splits)

lemma initialState_DEFAULT: "initialState DEFAULT_CONFIG v = Inr (root_with v 0 None)"
  by (simp add: initialState_def DEFAULT_CONFIG_def layer_1_def start_state_def
      root_entry_def root_with_def)

lemma currentLayer_root: "currentLayer DEFAULT_CONFIG (root_with v p z) = Some layer_1"
  by (simp add: currentLayer_def root_with_def start_state_def DEFAULT_CONFIG_def)

lemma root_below_step:
  assumes "0 \<le> p" "0 < d" "p + d * 0.15 < 84"
  shows "zoom_event DEFAULT_CONFIG (root_with v p z) node_1 d
           = Inr (root_with v (p + d * 0.15) (if p = 0 then Some node_1 else z))"
proof -
  have np: "newProgress (root_with v p z) layer_1 d = p + d * 0.15"
    using assms by (simp add: newProgress_def Let_def root_with_def start_state_def)
  have thr: "transitionThreshold (root_with v p z) = 84"
    by (simp add: transitionThreshold_def root_with_def start_state_def)
  have "handleZoomProgress DEFAULT_CONFIG (root_with v p z) node_1 d
          = Inr (root_with v (p + d * 0.15) (if p = 0 then Some node_1 else z), [], [])"
    using assms
    by (simp add: handleZoomProgress_def currentLayer_root np thr Let_def truthy_node_1)
       (simp add: root_with_def start_state_def)
  then show ?thesis by (simp add: zoom_event_def run_timeouts_nil)
qed

lemma root_below_run:
  assumes "0 \<le> p" "\<forall>d \<in> set ds. 0 < d" "p + sum_list ds * 0.15 < 84"
  shows "\<exists>z'. run DEFAULT_CONFIG (root_with v p z) (map (ZoomProgress node_1) ds)
                = Inr (root_with v (p + sum_list ds * 0.15) z')"
  using assms
proof (induction ds arbitrary: p z)
  case Nil
  then show ?case by auto
next
  case (Cons d ds)
  define p' where "p' = p + d * 0.15"
  define zz where "zz = (if p = 0 then Some node_1 else z)"
  have dpos: "0 < d" using Cons.prems(2) by simp
  have "0 \<le> sum_list ds" using Cons.prems(2) by (simp add: sum_list_nonneg less_imp_le)
  then have below: "p + d * 0.15 < 84" using Cons.prems(3) by (simp add: field_simps)
  have step: "zoom_event DEFAULT_CONFIG (root_with v p z) node_1 d = Inr (root_with v p' zz)"
    unfolding p'_def zz_def using Cons.prems(1) dpos below by (rule root_below_step)
  have p0: "0 \<le> p'" using Cons.prems(1) dpos by (simp add: p'_def)
  have eq: "p' + sum_list ds * 0.15 = p + sum_list (d # ds) * 0.15"
    by (simp add: p'_def field_simps)
  have rest: "p' + sum_list ds * 0.15 < 84"
    using Cons.prems(3) unfolding eq .
  have pos: "\<forall>d \<in> set ds. 0 < d" using Cons.prems(2) by simp
  obtain z' where r: "run DEFAULT_CONFIG (root_with v p' zz) (map (ZoomProgress node_1) ds)
                   = Inr (root_with v (p' + sum_list ds * 0.15) z')"
    using Cons.IH[OF p0 pos rest] by blast
  have "run DEFAULT_CONFIG (root_with v p z) (map (ZoomProgress node_1) (d # ds))
          = Inr (root_with v (p' + sum_list ds * 0.15) z')"
    by (simp add: step r)
  then have "run DEFAULT_CONFIG (root_with v p z) (map (ZoomProgress node_1) (d # ds))
          = Inr (root_with v (p + sum_list (d # ds) * 0.15) z')"
    by (simp only: eq)
  then show ?case by blast
qed

lemma inheritedColor_root:
  "inheritedColor DEFAULT_CONFIG (root_with v p z) node_1 = Inr ''#2563eb''"
  by (simp add: inheritedColor_def currentLayer_root layer_1_def node_1_def mk_node_def
      truthy_def)

lemma silent_from_root:
  "handleSilentLayerTransition DEFAULT_CONFIG (root_with v q z) node_1
     = Inr ((layer_2_fresh v)\<lparr>silentTransition := True\<rparr>, [(50, ClearSilent)])"
  by (simp add: handleSilentLayerTransition_def truthy_node_1 findIndex_layer_2
        inheritedColor_root)
     (simp add: root_with_def start_state_def layer_2_fresh_def deep_state_def
        DEFAULT_CONFIG_def layer_2_def root_entry_def)

lemma root_cross_step:
  assumes "p < 84" "84 \<le> p + d * 0.15"
  shows "zoom_event DEFAULT_CONFIG (root_with v p z) node_1 d = Inr (layer_2_fresh v)"
proof -
  have np: "newProgress (root_with v p z) layer_1 d = min 200 (p + d * 0.15)"
    using assms by (simp add: newProgress_def Let_def root_with_def start_state_def)
  have thr: "transitionThreshold (root_with v p z) = 84"
    by (simp add: transitionThreshold_def root_with_def start_state_def)
  have guards: "\<not> isZooming (root_with v p z)" "currentLayerIndex (root_with v p z) = 0"
    "zoomProgress (root_with v p z) = p"
    by (simp_all add: root_with_def start_state_def)
  define q where "q = min 200 (p + d * 0.15)"
  define z' where "z' = (if p = 0 then Some node_1 else z)"
  have q84: "84 \<le> q" using assms by (simp add: q_def)
  have dpos: "0 < d" using assms by (simp add: field_simps)
  have hz: "handleZoomProgress DEFAULT_CONFIG (root_with v p z) node_1 d
          = Inr (root_with v q z', [SilentTransition node_1], [])"
    using assms(1) q84 dpos unfolding handleZoomProgress_def
    by (simp add: currentLayer_root np[folded q_def] thr guards Let_def truthy_node_1)
       (simp add: root_with_def start_state_def z'_def)
  show ?thesis
    by (simp add: zoom_event_def hz silent_from_root run_timeouts_one)
       (simp add: layer_2_fresh_def deep_state_def)
qed

lemma scenario_A_core:
  assumes "ds \<noteq> []" "\<forall>d \<in> set ds. 0 < d"
    and "sum_list (butlast ds) * 0.15 < 84" "84 \<le> sum_list ds * 0.15"
  shows "run DEFAULT_CONFIG (root_with v 0 None) (map (ZoomProgress node_1) ds)
           = Inr (layer_2_fresh v)"
proof -
  have split: "ds = butlast ds @ [last ds]" using assms(1) by simp
  have pos: "\<forall>d \<in> set (butlast ds). 0 < d"
    using assms(2) by (auto dest: in_set_butlastD)
  define q where "q = sum_list (butlast ds) * 0.15"
  obtain z' where pre: "run DEFAULT_CONFIG (root_with v 0 None) (map (ZoomProgress node_1) (butlast ds))
                = Inr (root_with v q z')"
    using root_below_run[of 0 "butlast ds" v None] pos assms(3) by (auto simp: q_def)
  have sum: "sum_list ds = sum_list (butlast ds) + last ds"
    by (subst split) simp
  have cross: "zoom_event DEFAULT_CONFIG (root_with v q z') node_1 (last ds)
                 = Inr (layer_2_fresh v)"
    using assms(3,4) sum by (intro root_cross_step) (simp_all add: q_def field_simps)
  have "run DEFAULT_CONFIG (root_with v 0 None) (map (ZoomProgress node_1) (butlast ds @ [last ds]))
          = Inr (layer_2_fresh v)"
    by (simp add: run_append pre cross del: butlast.simps)
  then show ?thesis using split by simp
qed

lemma twelve_ticks:
  "[50, 50, 50, 50, 50, 50, 50, 50, 50, 50, 50, 50 :: real] \<noteq> []"
  "\<forall>d \<in> set [50, 50, 50, 50, 50, 50, 50, 50, 50, 50, 50, 50 :: real]. 0 < d"
  "sum_list (butlast [50, 50, 50, 50, 50, 50, 50, 50, 50, 50, 50, 50 :: real]) * 0.15 < 84"
  "84 \<le> sum_list [50, 50, 50, 50, 50, 50, 50, 50, 50, 50, 50, 50 :: real] * 0.15"
  by simp_all

lemma twelve_ticks_slack:
  "sum_list (butlast [50, 50, 50, 50, 50, 50, 50, 50, 50, 50, 50, 50 :: real]) * 0.15
     < 84 - rounding_slack [50, 50, 50, 50, 50, 50, 50, 50, 50, 50, 50, 50]"
  "84 + rounding_slack [50, 50, 50, 50, 50, 50, 50, 50, 50, 50, 50, 50 :: real]
     < sum_list [50, 50, 50, 50, 50, 50, 50, 50, 50, 50, 50, 50] * 0.15"
  by (simp_all add: rounding_slack_def)

lemma rounding_slack_nonneg: "0 \<le> rounding_slack ds"
  by (simp add: rounding_slack_def)

text \<open>
  C3 (amended). From the initial state, zoom steps on ``water cycle'' with positive
  deltas whose accumulated progress (0.15 per unit of delta) is below 84 before the
  last step and exceeds 84 with it, each by more than the rounding slack, end on layer
  index 1 with a history of length 2; the background colour is \<open>#2563eb\<close>, the colour
  of the root layer, in which the node is drawn.
\<close>

theorem scenario_A_background:
  assumes "initialState DEFAULT_CONFIG v = Inr s0"
    and "ds \<noteq> []" "\<forall>d \<in> set ds. 0 < d"
    and "sum_list (butlast ds) * 0.15 < 84 - rounding_slack ds"
    and "84 + rounding_slack ds < sum_list ds * 0.15"
  shows "\<exists>s. run DEFAULT_CONFIG s0 (map (ZoomProgress node_1) ds) = Inr s
           \<and> currentLayerIndex s = 1 \<and> length (history s) = 2
           \<and> backgroundColor s = ''#2563eb''"
proof -
  have below: "sum_list (butlast ds) * 0.15 < 84"
    using assms(4) rounding_slack_nonneg[of ds] by linarith
  have above: "84 \<le> sum_list ds * 0.15"
    using assms(5) rounding_slack_nonneg[of ds] by linarith
  have "s0 = root_with v 0 None" using assms(1) by (simp add: initialState_DEFAULT)
  then have "run DEFAULT_CONFIG s0 (map (ZoomProgress node_1) ds) = Inr (layer_2_fresh v)"
    using scenario_A_core[OF assms(2,3) below above] by simp
  then show ?thesis by (simp add: layer_2_fresh_def deep_state_def)
qed

theorem scenario_A_background_witness:
  "\<exists>s. run DEFAULT_CONFIG start_state
          (map (ZoomProgress node_1) [50, 50, 50, 50, 50, 50, 50, 50, 50, 50, 50, 50]) = Inr s
       \<and> currentLayerIndex s = 1 \<and> length (history s) = 2
       \<and> backgroundColor s = ''#2563eb''"
  by (rule scenario_A_background
             [OF initialState_default twelve_ticks(1) twelve_ticks(2) twelve_ticks_slack])

text \<open>
  C3 as stated fails: after twelve steps of delta 50 the background colour is not
  \<open>#7c3aed\<close>, the colour of the layer the node opens.
\<close>

theorem scenario_A_background_counterexample:
  "initialState DEFAULT_CONFIG \<lparr>width = 1000, height = 1000\<rparr> = Inr start_state
   \<and> \<not> isl (run DEFAULT_CONFIG start_state
          (map (ZoomProgress node_1) [50, 50, 50, 50, 50, 50, 50, 50, 50, 50, 50, 50]))
   \<and> backgroundColor (projr (run DEFAULT_CONFIG start_state
          (map (ZoomProgress node_1) [50, 50, 50, 50, 50, 50, 50, 50, 50, 50, 50, 50])))
       \<noteq> ''#7c3aed''"
proof -
  have s: "start_state = root_with \<lparr>width = 1000, height = 1000\<rparr> 0 None"
    by (simp add: root_with_def start_state_def)
  have "run DEFAULT_CONFIG start_state
          (map (ZoomProgress node_1) [50, 50, 50, 50, 50, 50, 50, 50, 50, 50, 50, 50])
        = Inr (layer_2_fresh \<lparr>width = 1000, height = 1000\<rparr>)"
    unfolding s by (rule scenario_A_core[OF twelve_ticks])
  then show ?thesis
    by (simp add: initialState_default) (simp add: layer_2_fresh_def deep_state_def)
qed

lemma crs_layer_2_20:
  "calculateResponsiveScale (Some \<lparr>width = 20, height = 20\<rparr>)
     (Some [node_2_1, node_2_2]) 165 = 3 / 10"
  by (simp add: calculateResponsiveScale_def pair_step_def boundary_step_def Let_def
      distance_same_y node_2_1_def node_2_2_def mk_node_def)

lemma crs_layer_2_200:
  "calculateResponsiveScale (Some \<lparr>width = 200, height = 200\<rparr>)
     (Some [node_2_1, node_2_2]) 165 = 3 / 10"
  by (simp add: calculateResponsiveScale_def pair_step_def boundary_step_def Let_def
      distance_same_y node_2_1_def node_2_2_def mk_node_def)

lemma maxProgress_20:
  "maxProgress \<lparr>width = 20, height = 20\<rparr> layer_2 = - 1625 / 396"
  by (simp add: maxProgress_def Let_def layer_2_def crs_layer_2_20)

lemma maxProgress_200:
  "maxProgress \<lparr>width = 200, height = 200\<rparr> layer_2 = 7075 / 99"
  by (simp add: maxProgress_def Let_def layer_2_def crs_layer_2_200)

lemma currentLayer_layer_2_fresh:
  "currentLayer DEFAULT_CONFIG (layer_2_fresh v) = Some layer_2"
  by (simp add: currentLayer_def layer_2_fresh_def deep_state_def DEFAULT_CONFIG_def)

lemma truthy_node_2_1: "truthy (node_children node_2_1)"
  by (simp add: truthy_def node_2_1_def mk_node_def)

lemma truthy_node_2_2: "truthy (node_children node_2_2)"
  by (simp add: truthy_def node_2_2_def mk_node_def)

lemma zoom_small_viewport:
  "zoom_event DEFAULT_CONFIG (layer_2_fresh \<lparr>width = 20, height = 20\<rparr>) node_2_1 10
     = Inr ((layer_2_fresh \<lparr>width = 20, height = 20\<rparr>)
             \<lparr>zoomingNode := Some node_2_1, zoomProgress := - 1625 / 396\<rparr>)"
proof -
  let ?s = "layer_2_fresh \<lparr>width = 20, height = 20\<rparr>"
  have f: "\<not> isZooming ?s" "zoomProgress ?s = 0" "currentLayerIndex ?s = 1"
      "viewport ?s = \<lparr>width = 20, height = 20\<rparr>"
    by (simp_all add: layer_2_fresh_def deep_state_def)
  have np: "newProgress ?s layer_2 10 = - 1625 / 396"
    by (simp add: newProgress_def Let_def f maxProgress_20)
  have thr: "transitionThreshold ?s = 90"
    by (simp add: transitionThreshold_def f)
  have "handleZoomProgress DEFAULT_CONFIG ?s node_2_1 10
          = Inr (?s\<lparr>zoomingNode := Some node_2_1, zoomProgress := - 1625 / 396\<rparr>, [], [])"
    by (simp add: handleZoomProgress_def currentLayer_layer_2_fresh f np thr Let_def
          truthy_node_2_1)
  then show ?thesis by (simp add: zoom_event_def run_timeouts_nil)
qed

text \<open>
  C4. The lower bound of the zoom invariant fails in a small viewport: at 20 by 20
  pixels the bound \<open>maxProgress\<close> of layer 2 is negative, and the clamp
  \<open>Math.min(maxProgress, Math.max(0, ...))\<close> leaves a negative progress after one
  zoom step on that layer.
\<close>

theorem zoom_progress_negative_small_viewport:
  "\<exists>s0 s. initialState DEFAULT_CONFIG \<lparr>width = 20, height = 20\<rparr> = Inr s0
      \<and> run DEFAULT_CONFIG s0 [ZoomProgress node_1 600, ZoomProgress node_2_1 10] = Inr s
      \<and> currentLayerIndex s = 1
      \<and> zoomProgress s = - 1625 / 396
      \<and> zoomProgress s < 0"
proof -
  have a: "zoom_event DEFAULT_CONFIG (root_with \<lparr>width = 20, height = 20\<rparr> 0 None) node_1 600
            = Inr (layer_2_fresh \<lparr>width = 20, height = 20\<rparr>)"
    by (rule root_cross_step) simp_all
  show ?thesis
    by (simp add: initialState_DEFAULT a zoom_small_viewport)
       (simp add: layer_2_fresh_def deep_state_def)
qed

lemma butlast_keeps_hd:
  "1 < length xs \<Longrightarrow> butlast xs \<noteq> [] \<and> hd (butlast xs) = hd xs"
  by (cases xs) auto

lemma history_ok_reverse:
  assumes "history_ok s"
    and "run_timeouts cfg (snd (handleReverseLayerTransition s))
           (fst (handleReverseLayerTransition s)) = Inr s'"
  shows "history_ok s'"
proof (cases "currentLayerIndex s = 0 \<or> length (history s) \<le> 1")
  case True
  then have "handleReverseLayerTransition s = (s, [])"
    by (simp add: handleReverseLayerTransition_def)
  then show ?thesis using assms by (simp add: run_timeouts_nil)
next
  case False
  then have len: "1 < length (history s)" by simp
  have "history s' = butlast (history s)"
    using assms(2) False
    by (auto simp: handleReverseLayerTransition_def Let_def run_timeouts_two)
  then show ?thesis
    using butlast_keeps_hd[OF len] assms(1) by (simp add: history_ok_def)
qed

lemma history_ok_goBack:
  assumes "history_ok s"
    and "run_timeouts cfg (snd (handleGoBack s)) (fst (handleGoBack s)) = Inr s'"
  shows "history_ok s'"
proof (cases "length (history s) > 1 \<and> \<not> isZooming s \<and> currentLayerIndex s \<noteq> 0")
  case False
  then have "handleGoBack s = (s, [])" by (auto simp: handleGoBack_def)
  then show ?thesis using assms by (simp add: run_timeouts_nil)
next
  case True
  then have len: "1 < length (history s)" by simp
  have "history s' = butlast (history s)"
    using assms(2) True by (auto simp: handleGoBack_def Let_def run_timeouts_two)
  then show ?thesis
    using butlast_keeps_hd[OF len] assms(1) by (simp add: history_ok_def)
qed

lemma history_ok_silent:
  assumes "history_ok s"
    and "handleSilentLayerTransition cfg s nd = Inr (s1, ts)"
    and "run_timeouts cfg ts s1 = Inr s'"
  shows "history_ok s'"
proof -
  have "(s1 = s \<and> ts = []) \<or>
        (ts = [(50, ClearSilent)] \<and>
          (history s1 = history s \<or> (\<exists>e. history s1 = history s @ [e])))"
    using assms(2)
    by (auto simp: handleSilentLayerTransition_def split: if_splits option.splits sum.splits)
  then show ?thesis
    using assms(1,3) by (auto simp: run_timeouts_nil run_timeouts_one history_ok_def)
qed

lemma history_ok_click:
  assumes "history_ok s"
    and "handleNodeClick cfg s nd = Inr (s1, ts)"
    and "run_timeouts cfg ts s1 = Inr s'"
  shows "history_ok s'"
proof -
  have "(s1 = s \<and> ts = []) \<or>
        (\<exists>t c. ts = [(50, ClickSwap t c nd), (750, EndZooming)] \<and> history s1 = history s)"
    using assms(2)
    by (auto simp: handleNodeClick_def split: if_splits option.splits sum.splits)
  then show ?thesis
    using assms(1,3) by (auto simp: run_timeouts_nil run_timeouts_two history_ok_def)
qed

lemma history_ok_home:
  assumes "history_ok s"
    and "run_timeouts cfg (snd (handleHome cfg s)) (fst (handleHome cfg s)) = Inr s'"
  shows "history_ok s'"
  using assms
  by (auto simp: handleHome_def Let_def run_timeouts_nil run_timeouts_two history_ok_def
      split: if_splits list.splits)

lemma history_ok_navigate:
  assumes "history_ok s"
    and "handleNavigate s index = Inr (s1, ts)"
    and "run_timeouts cfg ts s1 = Inr s'"
  shows "history_ok s'"
  using assms
  by (auto simp: handleNavigate_def Let_def run_timeouts_nil run_timeouts_two history_ok_def
      split: if_splits)

lemma history_ok_zoom:
  assumes ok: "history_ok s" and ev: "zoom_event cfg s nd deltaY = Inr s'"
  shows "history_ok s'"
proof (cases "isZooming s \<or> (deltaY > 0 \<and> \<not> truthy (node_children nd))")
  case True
  then have "handleZoomProgress cfg s nd deltaY = Inr (s, [], [])"
    by (auto simp: handleZoomProgress_def)
  then show ?thesis using ok ev by (simp add: zoom_event_def run_timeouts_nil)
next
  case guards: False
  show ?thesis
  proof (cases "deltaY < 0 \<and> zoomProgress s = 0 \<and> currentLayerIndex s > 0")
    case True
    then have "handleZoomProgress cfg s nd deltaY
        = Inr (fst (handleReverseLayerTransition s), [], snd (handleReverseLayerTransition s))"
      using guards by (auto simp: handleZoomProgress_def)
    then have "run_timeouts cfg (snd (handleReverseLayerTransition s))
                 (fst (handleReverseLayerTransition s)) = Inr s'"
      using ev by (simp add: zoom_event_def)
    then show ?thesis using ok by (rule history_ok_reverse[rotated])
  next
    case False
    with ev guards obtain cl where cl: "currentLayer cfg s = Some cl"
      by (auto simp: zoom_event_def handleZoomProgress_def split: option.splits)
    define np where "np = newProgress s cl deltaY"
    define forward where "forward \<longleftrightarrow> np \<ge> transitionThreshold s
        \<and> zoomProgress s < transitionThreshold s \<and> truthy (node_children nd)"
    define backward where "backward \<longleftrightarrow> np = 0 \<and> zoomProgress s > 0 \<and> currentLayerIndex s > 0"
    obtain s1 where hz: "handleZoomProgress cfg s nd deltaY
        = Inr (s1, (if forward then [SilentTransition nd] else [])
                     @ (if backward then [ReverseTransition] else []), [])"
      and h1: "history s1 = history s"
      using guards False cl
      by (auto simp: handleZoomProgress_def Let_def np_def forward_def backward_def)
    have ok1: "history_ok s1" using ok h1 by (simp add: history_ok_def)
    have excl: "\<not> (forward \<and> backward)"
      using transitionThreshold_pos[of s] by (auto simp: forward_def backward_def)
    consider "forward" "\<not> backward" | "backward" "\<not> forward" | "\<not> forward" "\<not> backward"
      using excl by blast
    then show ?thesis
    proof cases
      case 1
      then obtain s2 ts where a: "handleSilentLayerTransition cfg s1 nd = Inr (s2, ts)"
        and b: "run_timeouts cfg ts s2 = Inr s'"
        using ev hz by (auto simp: zoom_event_def split: sum.splits)
      show ?thesis by (rule history_ok_silent[OF ok1 a b])
    next
      case 2
      then have "run_timeouts cfg (snd (handleReverseLayerTransition s1))
                   (fst (handleReverseLayerTransition s1)) = Inr s'"
        using ev hz by (auto simp: zoom_event_def split: sum.splits prod.splits)
      then show ?thesis using ok1 by (rule history_ok_reverse[rotated])
    next
      case 3
      then have "s' = s1" using ev hz by (simp add: zoom_event_def run_timeouts_nil)
      then show ?thesis using ok1 by simp
    qed
  qed
qed

lemma history_ok_dispatch:
  assumes "history_ok s" "dispatch cfg s e = Inr s'"
  shows "history_ok s'"
proof (cases e)
  case (ZoomProgress nd deltaY)
  then show ?thesis using assms history_ok_zoom by simp
next
  case (NodeClick nd)
  then show ?thesis using assms history_ok_click by (auto split: sum.splits)
next
  case TriggerReverseTransition
  then show ?thesis
    using assms history_ok_reverse[of s cfg s']
    by (auto simp: handleReverseTransition_def run_timeouts_nil split: if_splits)
next
  case NodeGoBack
  then show ?thesis using assms history_ok_goBack by simp
next
  case Home
  then show ?thesis using assms history_ok_home by simp
next
  case (Navigate index)
  then show ?thesis using assms history_ok_navigate by (auto split: sum.splits)
next
  case CanvasClick
  then show ?thesis using assms by (auto simp: handleCanvasClick_def history_ok_def split: if_splits)
next
  case (Resize v)
  then show ?thesis using assms by (auto simp: history_ok_def)
qed

lemma history_ok_run:
  "history_ok s0 \<Longrightarrow> run cfg s0 es = Inr s \<Longrightarrow> history_ok s"
proof (induction es arbitrary: s0)
  case Nil
  then show ?case by simp
next
  case (Cons e es)
  then obtain s1 where d: "dispatch cfg s0 e = Inr s1" and r: "run cfg s1 es = Inr s"
    by (auto split: sum.splits)
  have "history_ok s1" using Cons.prems(1) d by (rule history_ok_dispatch)
  then show ?case using r by (rule Cons.IH)
qed

lemma history_ok_initial: "initialState cfg v = Inr s0 \<Longrightarrow> history_ok s0"
  by (auto simp: initialState_def history_ok_def split: list.splits)

text \<open>
  When every event runs to completion (its animation frame and its timeouts) before the
  next input, the history is never empty and its first entry has layer index 0.
\<close>

lemma history_invariant_atomic:
  assumes "initialState cfg v = Inr s0" and "run cfg s0 es = Inr s"
  shows "history s \<noteq> [] \<and> layerIndex (hd (history s)) = 0"
  using history_ok_run[OF history_ok_initial[OF assms(1)] assms(2)]
  by (simp add: history_ok_def)

lemma silent_step:
  assumes "truthy (node_children nd)"
    and "findIndex (\<lambda>l. Some (layer_id l) = node_children nd) (layers cfg) = Some t"
    and "inheritedColor cfg s nd = Inr c"
  shows "\<exists>s'. handleSilentLayerTransition cfg s nd = Inr (s', [(50, ClearSilent)])
           \<and> zoomProgress s' = 0 \<and> zoomingNode s' = None
           \<and> currentLayerIndex s' = t \<and> backgroundColor s' = c"
  using assms by (simp add: handleSilentLayerTransition_def)

lemma newProgress_bound:
  "newProgress s cl deltaY = min (progressBound s cl) (max 0 (zoomProgress s + deltaY * 0.15))"
  by (simp add: newProgress_def progressBound_def Let_def)

lemma progressBound_deep: "progressBound deep_state layer_2 = 1325 / 8"
  by (simp add: progressBound_def deep_state_def maxProgress_deep)

lemma threshold_deep: "transitionThreshold deep_state = 90"
  by (simp add: transitionThreshold_def deep_state_def)

lemma findIndex_node_2_2:
  "findIndex (\<lambda>l. Some (layer_id l) = node_children node_2_2) (layers DEFAULT_CONFIG) = Some 2"
  by (simp add: DEFAULT_CONFIG_def layer_1_def layer_2_def layer_3_def node_2_2_def mk_node_def)

text \<open>
  C10 (amended). A zoom step changes \<open>zoomingNode\<close> to a node only when a positive
  delta meets progress 0. When a positive delta is applied on an expandable node \<open>B\<close>
  while a positive progress is pending on node \<open>A\<close> (and the bound of the layer is
  positive), \<open>zoomingNode\<close> stays \<open>A\<close>, the progress becomes the minimum of the bound
  and the old progress plus 0.15 times the delta, which is more than before when the
  old progress is below the bound, and a threshold crossing of this call schedules the
  silent transition of \<open>B\<close>, which enters the layer \<open>B\<close> refers to.
\<close>

theorem shared_progress_other_node:
  "(handleZoomProgress cfg s nd deltaY = Inr (s1, frames, ts)
      \<and> zoomingNode s1 \<noteq> zoomingNode s \<and> zoomingNode s1 \<noteq> None
    \<longrightarrow> 0 < deltaY \<and> zoomProgress s = 0 \<and> zoomingNode s1 = Some nd)
   \<and> (\<not> isZooming s \<and> 0 < deltaY \<and> truthy (node_children B) \<and> 0 < zoomProgress s
        \<and> zoomingNode s = Some A \<and> currentLayer cfg s = Some cl \<and> 0 < progressBound s cl
      \<longrightarrow> (\<exists>s2 frames2.
             handleZoomProgress cfg s B deltaY = Inr (s2, frames2, [])
             \<and> zoomingNode s2 = Some A
             \<and> zoomProgress s2 = min (progressBound s cl) (zoomProgress s + deltaY * 0.15)
             \<and> (zoomProgress s < progressBound s cl \<longrightarrow> zoomProgress s < zoomProgress s2)
             \<and> (zoomProgress s < transitionThreshold s
                  \<and> transitionThreshold s \<le> zoomProgress s2
                \<longrightarrow> frames2 = [SilentTransition B]
                    \<and> (\<forall>t. findIndex (\<lambda>l. Some (layer_id l) = node_children B) (layers cfg)
                               = Some t
                          \<longrightarrow> (\<exists>s3 ts3. run_frames cfg frames2 s2 = Inr (s3, ts3)
                                  \<and> currentLayerIndex s3 = t)))))"
proof (intro conjI impI)
  assume a: "handleZoomProgress cfg s nd deltaY = Inr (s1, frames, ts)
      \<and> zoomingNode s1 \<noteq> zoomingNode s \<and> zoomingNode s1 \<noteq> None"
  then show "0 < deltaY" "zoomProgress s = 0" "zoomingNode s1 = Some nd"
    by (auto simp: handleZoomProgress_def handleReverseLayerTransition_def Let_def
        split: if_splits option.splits)
next
  assume h: "\<not> isZooming s \<and> 0 < deltaY \<and> truthy (node_children B) \<and> 0 < zoomProgress s
        \<and> zoomingNode s = Some A \<and> currentLayer cfg s = Some cl \<and> 0 < progressBound s cl"
  define np where "np = newProgress s cl deltaY"
  have inc: "0 < deltaY * 0.15" using h by simp
  have np_eq: "np = min (progressBound s cl) (zoomProgress s + deltaY * 0.15)"
    using h inc by (simp add: np_def newProgress_bound max_def)
  have np_pos: "0 < np" using h inc by (simp add: np_eq)
  define forward where "forward \<longleftrightarrow> np \<ge> transitionThreshold s
        \<and> zoomProgress s < transitionThreshold s"
  define s2 where "s2 = s\<lparr>zoomProgress := np\<rparr>"
  have hz: "handleZoomProgress cfg s B deltaY
        = Inr (s2, (if forward then [SilentTransition B] else []), [])"
    using h np_pos
    by (simp add: handleZoomProgress_def Let_def np_def[symmetric] forward_def s2_def)
  have zp: "zoomProgress s2 = min (progressBound s cl) (zoomProgress s + deltaY * 0.15)"
    by (simp add: s2_def np_eq)
  have grow: "zoomProgress s < zoomProgress s2" if "zoomProgress s < progressBound s cl"
    using that inc unfolding zp by simp
  have fire: "(if forward then [SilentTransition B] else []) = [SilentTransition B]
      \<and> (\<forall>t. findIndex (\<lambda>l. Some (layer_id l) = node_children B) (layers cfg) = Some t
             \<longrightarrow> (\<exists>s3 ts3. run_frames cfg (if forward then [SilentTransition B] else []) s2
                               = Inr (s3, ts3) \<and> currentLayerIndex s3 = t))"
    if cross: "zoomProgress s < transitionThreshold s
                \<and> transitionThreshold s \<le> zoomProgress s2"
  proof (intro conjI allI impI)
    have fw: "forward" using cross by (simp add: forward_def s2_def)
    then show fr: "(if forward then [SilentTransition B] else []) = [SilentTransition B]"
      by simp
    fix t
    assume t: "findIndex (\<lambda>l. Some (layer_id l) = node_children B) (layers cfg) = Some t"
    have cl2: "currentLayer cfg s2 = Some cl"
      using h by (auto simp: currentLayer_def s2_def split: if_splits)
    then obtain c where c: "inheritedColor cfg s2 B = Inr c"
      by (cases "truthy (node_color B)") (auto simp: inheritedColor_def)
    have tr: "truthy (node_children B)" using h by simp
    obtain s3 where "handleSilentLayerTransition cfg s2 B = Inr (s3, [(50, ClearSilent)])"
        and "currentLayerIndex s3 = t"
      using silent_step[OF tr t c] by blast
    then show "\<exists>s3 ts3. run_frames cfg (if forward then [SilentTransition B] else []) s2
                 = Inr (s3, ts3) \<and> currentLayerIndex s3 = t"
      unfolding fr by simp
  qed
  have za: "zoomingNode s2 = Some A" using h by (simp add: s2_def)
  show "\<exists>s2 frames2.
             handleZoomProgress cfg s B deltaY = Inr (s2, frames2, [])
             \<and> zoomingNode s2 = Some A
             \<and> zoomProgress s2 = min (progressBound s cl) (zoomProgress s + deltaY * 0.15)
             \<and> (zoomProgress s < progressBound s cl \<longrightarrow> zoomProgress s < zoomProgress s2)
             \<and> (zoomProgress s < transitionThreshold s
                  \<and> transitionThreshold s \<le> zoomProgress s2
                \<longrightarrow> frames2 = [SilentTransition B]
                    \<and> (\<forall>t. findIndex (\<lambda>l. Some (layer_id l) = node_children B) (layers cfg)
                               = Some t
                          \<longrightarrow> (\<exists>s3 ts3. run_frames cfg frames2 s2 = Inr (s3, ts3)
                                  \<and> currentLayerIndex s3 = t)))"
    using hz za zp grow fire by blast
qed


theorem shared_progress_other_node_witness:
  "\<exists>s2. handleZoomProgress DEFAULT_CONFIG deep_state node_2_2 600
            = Inr (s2, [SilentTransition node_2_2], [])
        \<and> zoomingNode s2 = Some node_2_1
        \<and> zoomProgress s2 = 96
        \<and> zoomProgress deep_state < zoomProgress s2
        \<and> (\<exists>s3 ts3. run_frames DEFAULT_CONFIG [SilentTransition node_2_2] s2 = Inr (s3, ts3)
              \<and> currentLayerIndex s3 = 2)"
proof -
  have hyp: "\<not> isZooming deep_state \<and> (0::real) < 600 \<and> truthy (node_children node_2_2)
        \<and> 0 < zoomProgress deep_state \<and> zoomingNode deep_state = Some node_2_1
        \<and> currentLayer DEFAULT_CONFIG deep_state = Some layer_2
        \<and> 0 < progressBound deep_state layer_2"
    by (simp add: truthy_node_2_2 currentLayer_deep progressBound_deep)
       (simp add: deep_state_def)
  have zp: "zoomProgress deep_state = 6" by (simp add: deep_state_def)
  from shared_progress_other_node
         [of DEFAULT_CONFIG deep_state node_2_1 600 deep_state "[]" "[]" node_2_2 node_2_1 layer_2]
       hyp
  obtain s2 frames2 where
      a: "handleZoomProgress DEFAULT_CONFIG deep_state node_2_2 600 = Inr (s2, frames2, [])"
    and b: "zoomingNode s2 = Some node_2_1"
    and c: "zoomProgress s2 = min (progressBound deep_state layer_2)
                                  (zoomProgress deep_state + 600 * 0.15)"
    and d: "zoomProgress deep_state < transitionThreshold deep_state
              \<and> transitionThreshold deep_state \<le> zoomProgress s2
            \<longrightarrow> frames2 = [SilentTransition node_2_2]
               \<and> (\<forall>t. findIndex (\<lambda>l. Some (layer_id l) = node_children node_2_2)
                          (layers DEFAULT_CONFIG) = Some t
                     \<longrightarrow> (\<exists>s3 ts3. run_frames DEFAULT_CONFIG frames2 s2 = Inr (s3, ts3)
                             \<and> currentLayerIndex s3 = t))"
    by blast
  have c': "zoomProgress s2 = 96" using c by (simp add: progressBound_deep zp)
  have pre: "zoomProgress deep_state < transitionThreshold deep_state
              \<and> transitionThreshold deep_state \<le> zoomProgress s2"
    using c' by (simp add: threshold_deep zp)
  from d pre have e: "frames2 = [SilentTransition node_2_2]"
    and every: "\<forall>t. findIndex (\<lambda>l. Some (layer_id l) = node_children node_2_2)
                          (layers DEFAULT_CONFIG) = Some t
                     \<longrightarrow> (\<exists>s3 ts3. run_frames DEFAULT_CONFIG frames2 s2 = Inr (s3, ts3)
                             \<and> currentLayerIndex s3 = t)"
    by blast+
  from every findIndex_node_2_2
  have f: "\<exists>s3 ts3. run_frames DEFAULT_CONFIG frames2 s2 = Inr (s3, ts3)
              \<and> currentLayerIndex s3 = 2"
    by blast
  have g: "zoomProgress deep_state < zoomProgress s2" using c' zp by simp
  show ?thesis
    by (rule exI[of _ s2])
       (intro conjI; (rule a[unfolded e] | rule b | rule c' | rule g | rule f[unfolded e]))
qed

lemma currentLayer_capped: "currentLayer DEFAULT_CONFIG capped_state = Some layer_2"
  by (simp add: currentLayer_def capped_state_def deep_state_def DEFAULT_CONFIG_def)

lemma zoom_capped:
  "handleZoomProgress DEFAULT_CONFIG capped_state node_2_2 5
     = Inr (capped_state, [], [])"
proof -
  have f: "\<not> isZooming capped_state" "zoomProgress capped_state = 7075 / 99"
      "currentLayerIndex capped_state = 1"
      "viewport capped_state = \<lparr>width = 200, height = 200\<rparr>"
    by (simp_all add: capped_state_def deep_state_def)
  have np: "newProgress capped_state layer_2 5 = 7075 / 99"
    by (simp add: newProgress_def Let_def f maxProgress_200)
  have thr: "transitionThreshold capped_state = 90"
    by (simp add: transitionThreshold_def f)
  show ?thesis
    by (simp add: handleZoomProgress_def currentLayer_capped f np thr Let_def truthy_node_2_2)
qed

lemma capped_state_reached:
  "run DEFAULT_CONFIG (root_with \<lparr>width = 200, height = 200\<rparr> 0 None)
     [ZoomProgress node_1 600, ZoomProgress node_2_1 10000] = Inr capped_state"
proof -
  let ?v = "\<lparr>width = 200, height = 200\<rparr>"
  let ?s = "layer_2_fresh ?v"
  have a: "zoom_event DEFAULT_CONFIG (root_with ?v 0 None) node_1 600 = Inr ?s"
    by (rule root_cross_step) simp_all
  have f: "\<not> isZooming ?s" "zoomProgress ?s = 0" "currentLayerIndex ?s = 1"
      "viewport ?s = ?v"
    by (simp_all add: layer_2_fresh_def deep_state_def)
  have np: "newProgress ?s layer_2 10000 = 7075 / 99"
    by (simp add: newProgress_def Let_def f maxProgress_200)
  have thr: "transitionThreshold ?s = 90"
    by (simp add: transitionThreshold_def f)
  have "handleZoomProgress DEFAULT_CONFIG ?s node_2_1 10000 = Inr (capped_state, [], [])"
    by (simp add: handleZoomProgress_def currentLayer_layer_2_fresh f np thr Let_def
          truthy_node_2_1)
       (simp add: capped_state_def layer_2_fresh_def deep_state_def)
  then have b: "zoom_event DEFAULT_CONFIG ?s node_2_1 10000 = Inr capped_state"
    by (simp add: zoom_event_def run_timeouts_nil)
  show ?thesis by (simp add: a b)
qed

text \<open>
  C10 as stated fails at the bound: on layer 2 in a 200 by 200 viewport the progress on
  ``what is it ?'' is at its bound 7075/99; a positive delta on ``4 layers'' leaves it
  there.
\<close>

theorem progress_not_increased_at_bound_counterexample:
  "\<not> isZooming capped_state \<and> truthy (node_children node_2_2)
   \<and> 0 < zoomProgress capped_state \<and> zoomingNode capped_state = Some node_2_1
   \<and> node_2_1 \<noteq> node_2_2
   \<and> \<not> isl (handleZoomProgress DEFAULT_CONFIG capped_state node_2_2 5)
   \<and> \<not> zoomProgress capped_state
         < zoomProgress (fst (projr (handleZoomProgress DEFAULT_CONFIG capped_state node_2_2 5)))"
  by (simp add: zoom_capped truthy_node_2_2)
     (simp add: capped_state_def deep_state_def node_2_1_def node_2_2_def mk_node_def)

section \<open>Reverse transitions with a zoom pending or a frame pending\<close>

text \<open>
  \<open>crossing_state\<close> is the result of \<open>zoom_start_600\<close> and \<open>capped_state\<close> that of
  \<open>capped_state_reached\<close>; \<open>deep_state\<close> is reached by two zoom steps.
\<close>

lemma deep_state_reached:
  "run DEFAULT_CONFIG start_state [ZoomProgress node_1 600, ZoomProgress node_2_1 40]
     = Inr deep_state"
proof -
  let ?v = "\<lparr>width = 1000, height = 1000\<rparr>"
  let ?s = "layer_2_fresh ?v"
  have s: "start_state = root_with ?v 0 None"
    by (simp add: root_with_def start_state_def)
  have a: "zoom_event DEFAULT_CONFIG start_state node_1 600 = Inr ?s"
    unfolding s by (rule root_cross_step) simp_all
  have f: "\<not> isZooming ?s" "zoomProgress ?s = 0" "currentLayerIndex ?s = 1"
      "viewport ?s = ?v"
    by (simp_all add: layer_2_fresh_def deep_state_def)
  have np: "newProgress ?s layer_2 40 = 6"
    by (simp add: newProgress_def Let_def f maxProgress_deep)
  have thr: "transitionThreshold ?s = 90"
    by (simp add: transitionThreshold_def f)
  have "handleZoomProgress DEFAULT_CONFIG ?s node_2_1 40 = Inr (deep_state, [], [])"
    by (simp add: handleZoomProgress_def currentLayer_layer_2_fresh f np thr Let_def
          truthy_node_2_1)
       (simp add: layer_2_fresh_def deep_state_def)
  then have b: "zoom_event DEFAULT_CONFIG ?s node_2_1 40 = Inr deep_state"
    by (simp add: zoom_event_def run_timeouts_nil)
  show ?thesis by (simp add: a b)
qed

lemma reverse_request_run:
  "run DEFAULT_CONFIG start_state
     [ZoomProgress node_1 600, ZoomProgress node_2_1 40, TriggerReverseTransition]
   = Inr (start_state\<lparr>direction := - 1, zoomProgress := 6, zoomingNode := Some node_2_1\<rparr>)"
proof -
  have b: "dispatch DEFAULT_CONFIG deep_state TriggerReverseTransition
           = Inr (start_state\<lparr>direction := - 1, zoomProgress := 6, zoomingNode := Some node_2_1\<rparr>)"
    by (simp add: handleReverseTransition_def handleReverseLayerTransition_def Let_def
          run_timeouts_two deep_state_def start_state_def root_entry_def)
  have "run DEFAULT_CONFIG start_state
          ([ZoomProgress node_1 600, ZoomProgress node_2_1 40] @ [TriggerReverseTransition])
        = run DEFAULT_CONFIG deep_state [TriggerReverseTransition]"
    by (simp only: run_append deep_state_reached sum.case)
  also have "\<dots> = Inr (start_state\<lparr>direction := - 1, zoomProgress := 6,
                          zoomingNode := Some node_2_1\<rparr>)"
    by (simp only: run.simps b sum.case)
  finally show ?thesis by simp
qed

text \<open>
  C2. The reverse transition should leave progress 0 and no zooming node, as
  \<open>handleHome\<close> and \<open>handleNavigate\<close> to the root do. It does not where a progress is
  pending: with progress 6 on ``what is it ?'' a right click on ``4 layers'' (whose own
  \<open>zoomProgress\<close> prop is masked to 0) requests the reverse transition, and the
  application is back on the root layer with progress 6 and the zooming node of the
  layer it left.
\<close>

theorem reverse_request_leaves_pending_zoom:
  "\<exists>s. initialState DEFAULT_CONFIG \<lparr>width = 1000, height = 1000\<rparr> = Inr start_state
       \<and> run DEFAULT_CONFIG start_state
            [ZoomProgress node_1 600, ZoomProgress node_2_1 40, TriggerReverseTransition] = Inr s
       \<and> currentLayerIndex s = 0 \<and> history s = [root_entry] \<and> \<not> isZooming s
       \<and> zoomProgress s = 6 \<and> zoomingNode s = Some node_2_1"
proof -
  let ?s = "start_state\<lparr>direction := - 1, zoomProgress := 6, zoomingNode := Some node_2_1\<rparr>"
  have p: "currentLayerIndex ?s = 0 \<and> history ?s = [root_entry] \<and> \<not> isZooming ?s
           \<and> zoomProgress ?s = 6 \<and> zoomingNode ?s = Some node_2_1"
    by (simp add: start_state_def)
  from initialState_default reverse_request_run p show ?thesis by blast
qed

lemma zoom_out_to_zero:
  "handleZoomProgress DEFAULT_CONFIG deep_state node_2_1 (- 40)
     = Inr (layer_2_fresh \<lparr>width = 1000, height = 1000\<rparr>, [ReverseTransition], [])"
proof -
  have f: "\<not> isZooming deep_state" "zoomProgress deep_state = 6"
      "currentLayerIndex deep_state = 1"
      "viewport deep_state = \<lparr>width = 1000, height = 1000\<rparr>"
    by (simp_all add: deep_state_def)
  have np: "newProgress deep_state layer_2 (- 40) = 0"
    by (simp add: newProgress_def Let_def f maxProgress_deep)
  have thr: "transitionThreshold deep_state = 90"
    by (simp add: transitionThreshold_def f)
  show ?thesis
    by (simp add: handleZoomProgress_def currentLayer_deep f np thr Let_def)
       (simp add: layer_2_fresh_def deep_state_def)
qed

lemma reverse_request_locked:
  "handleReverseTransition (layer_2_fresh v)
     = ((layer_2_fresh v)\<lparr>isZooming := True, direction := - 1, backgroundColor := ''#0a0e27''\<rparr>,
        [(50, ReverseSwap root_entry), (750, EndZooming)])"
  by (simp add: handleReverseTransition_def handleReverseLayerTransition_def Let_def
        layer_2_fresh_def deep_state_def root_entry_def)

lemma reverse_frame_while_locked:
  "run_frames DEFAULT_CONFIG [ReverseTransition]
     ((layer_2_fresh v)\<lparr>isZooming := True, direction := - 1, backgroundColor := ''#0a0e27''\<rparr>)
     = Inr ((layer_2_fresh v)\<lparr>isZooming := True, direction := - 1, backgroundColor := ''#0a0e27''\<rparr>,
            [(50, ReverseSwap root_entry), (750, EndZooming)])"
  by (simp add: handleReverseLayerTransition_def Let_def layer_2_fresh_def deep_state_def
        root_entry_def)

lemma two_pops:
  "run_timeouts DEFAULT_CONFIG
     ([(50, ReverseSwap root_entry), (750, EndZooming)]
        @ [(50, ReverseSwap root_entry), (750, EndZooming)])
     ((layer_2_fresh v)\<lparr>isZooming := True, direction := - 1, backgroundColor := ''#0a0e27''\<rparr>)
   = Inr ((layer_2_fresh v)\<lparr>isZooming := False, direction := - 1,
            backgroundColor := ''#0a0e27'', currentLayerIndex := 0, history := []\<rparr>)"
  by (simp add: run_timeouts_def layer_2_fresh_def deep_state_def root_entry_def)

text \<open>
  C9. The history can become empty. A zoom-out that takes the progress to 0 hands the
  reverse transition to \<open>requestAnimationFrame\<close> and leaves \<open>isZooming\<close> false;
  a reverse request that arrives before that frame starts a transition of its own;
  the frame callback then runs \<open>handleReverseLayerTransition\<close>, which does not test
  \<open>isZooming\<close> and still sees layer index 1 and two history entries, as the render it
  was created in did. Both 50 ms timeouts pop, and the history of length 2 is empty.
\<close>

theorem history_emptied_by_second_reverse:
  "\<exists>s1 s2 ts2 s3 ts3 s4.
      initialState DEFAULT_CONFIG \<lparr>width = 1000, height = 1000\<rparr> = Inr start_state
    \<and> run DEFAULT_CONFIG start_state [ZoomProgress node_1 600, ZoomProgress node_2_1 40]
        = Inr deep_state
    \<and> handleZoomProgress DEFAULT_CONFIG deep_state node_2_1 (- 40)
        = Inr (s1, [ReverseTransition], [])
    \<and> \<not> isZooming s1
    \<and> handleReverseTransition s1 = (s2, ts2)
    \<and> run_frames DEFAULT_CONFIG [ReverseTransition] s2 = Inr (s3, ts3)
    \<and> run_timeouts DEFAULT_CONFIG (ts2 @ ts3) s3 = Inr s4
    \<and> history s4 = []"
proof -
  let ?v = "\<lparr>width = 1000, height = 1000\<rparr>"
  have open_lock: "\<not> isZooming (layer_2_fresh ?v)"
    by (simp add: layer_2_fresh_def deep_state_def)
  have empty: "history ((layer_2_fresh ?v)\<lparr>isZooming := False, direction := - 1,
            backgroundColor := ''#0a0e27'', currentLayerIndex := 0, history := []\<rparr>) = []"
    by simp
  from initialState_default deep_state_reached zoom_out_to_zero open_lock
       reverse_request_locked[of ?v] reverse_frame_while_locked[of ?v] two_pops[of ?v] empty
  show ?thesis by blast
qed

end
